theory Spec2Isabelle
  imports Complex_Main "HOL-Library.Word"
begin

section \<open>Numbers\<close>

text \<open>
  Jsonnet numbers are Go \<^verbatim>\<open>float64\<close> values.  The model keeps the four kinds of IEEE-754
  values apart.  A finite value is kept as the real number it denotes: \<open>round64\<close> models
  the overflow of a result to an infinity, while the rounding of the significand, gradual
  underflow and the sign of zero are not modelled.
\<close>

datatype float64 = Finite real | PosInf | NegInf | NaN

definition round64 :: "real \<Rightarrow> float64" where
  "round64 r =
     (if 2 ^ 1024 - 2 ^ 970 \<le> r then PosInf
      else if r \<le> - (2 ^ 1024 - 2 ^ 970) then NegInf
      else Finite r)"

fun fneg :: "float64 \<Rightarrow> float64" where
  "fneg (Finite a) = Finite (- a)"
| "fneg PosInf = NegInf"
| "fneg NegInf = PosInf"
| "fneg NaN = NaN"

fun fadd :: "float64 \<Rightarrow> float64 \<Rightarrow> float64" where
  "fadd NaN _ = NaN"
| "fadd _ NaN = NaN"
| "fadd (Finite a) (Finite b) = round64 (a + b)"
| "fadd PosInf NegInf = NaN"
| "fadd NegInf PosInf = NaN"
| "fadd PosInf _ = PosInf"
| "fadd NegInf _ = NegInf"
| "fadd (Finite a) y = y"

definition fsub :: "float64 \<Rightarrow> float64 \<Rightarrow> float64" where
  "fsub x y = fadd x (fneg y)"

text \<open>The sign of a value: \<open>1\<close>, \<open>0\<close> or \<open>-1\<close>; used for the products and quotients of infinities.\<close>

fun fsign :: "float64 \<Rightarrow> int" where
  "fsign (Finite a) = (if 0 < a then 1 else if a < 0 then - 1 else 0)"
| "fsign PosInf = 1"
| "fsign NegInf = - 1"
| "fsign NaN = 0"

definition signedInf :: "int \<Rightarrow> float64" where
  "signedInf sg = (if sg = 0 then NaN else if 0 < sg then PosInf else NegInf)"

fun fmul :: "float64 \<Rightarrow> float64 \<Rightarrow> float64" where
  "fmul NaN _ = NaN"
| "fmul _ NaN = NaN"
| "fmul (Finite a) (Finite b) = round64 (a * b)"
| "fmul x y = signedInf (fsign x * fsign y)"

fun fdiv :: "float64 \<Rightarrow> float64 \<Rightarrow> float64" where
  "fdiv NaN _ = NaN"
| "fdiv _ NaN = NaN"
| "fdiv (Finite a) (Finite b) = (if b = 0 then signedInf (fsign (Finite a)) else round64 (a / b))"
| "fdiv (Finite a) _ = Finite 0"
| "fdiv x (Finite b) = signedInf (fsign x * (if b < 0 then - 1 else 1))"
| "fdiv _ _ = NaN"

text \<open>Go's \<^verbatim>\<open>math.Mod\<close>: the remainder has the sign of the dividend and is exact.\<close>

definition truncReal :: "real \<Rightarrow> int" where
  "truncReal r = (if 0 \<le> r then \<lfloor>r\<rfloor> else \<lceil>r\<rceil>)"

fun fmod :: "float64 \<Rightarrow> float64 \<Rightarrow> float64" where
  "fmod NaN _ = NaN"
| "fmod _ NaN = NaN"
| "fmod PosInf _ = NaN"
| "fmod NegInf _ = NaN"
| "fmod (Finite a) (Finite b) = (if b = 0 then NaN else Finite (a - b * of_int (truncReal (a / b))))"
| "fmod (Finite a) _ = Finite a"

fun feq :: "float64 \<Rightarrow> float64 \<Rightarrow> bool" where
  "feq (Finite a) (Finite b) = (a = b)"
| "feq PosInf PosInf = True"
| "feq NegInf NegInf = True"
| "feq _ _ = False"

fun fless :: "float64 \<Rightarrow> float64 \<Rightarrow> bool" where
  "fless NaN _ = False"
| "fless _ NaN = False"
| "fless (Finite a) (Finite b) = (a < b)"
| "fless NegInf y = (y \<noteq> NegInf)"
| "fless x PosInf = (x \<noteq> PosInf)"
| "fless _ _ = False"

fun isNaN :: "float64 \<Rightarrow> bool" where
  "isNaN NaN = True"
| "isNaN _ = False"

fun isInf :: "float64 \<Rightarrow> bool" where
  "isInf PosInf = True"
| "isInf NegInf = True"
| "isInf _ = False"

text \<open>
  The conversion \<^verbatim>\<open>int(x)\<close> of a \<^verbatim>\<open>float64\<close> (Go's \<^verbatim>\<open>int\<close> and \<^verbatim>\<open>int64\<close> have 64 bits)
  truncates toward zero.  For a value that does not fit, for infinities and for NaN the Go
  language leaves the result to the implementation; the model takes the value that the
  amd64 instruction delivers, the minimum integer.
\<close>

definition minInt64 :: int where
  "minInt64 = - (2 ^ 63)"

fun floatToInt :: "float64 \<Rightarrow> int" where
  "floatToInt (Finite r) =
     (if minInt64 \<le> truncReal r \<and> truncReal r < 2 ^ 63 then truncReal r else minInt64)"
| "floatToInt _ = minInt64"

definition intToFloat :: "int \<Rightarrow> float64" where
  "intToFloat n = Finite (of_int n)"

section \<open>The syntax tree\<close>

text \<open>
  The nodes of \<^verbatim>\<open>ast.go\<close>.  Source locations, the free-variable annotation and the
  layout details of the parser (trailing commas, string kinds) are left out.  The node kinds
  that only exist before desugaring are kept as one constructor, \<open>UnlistedNode\<close>: the analyzer
  never looks into them.
\<close>

type_synonym Identifier = string

datatype ObjectFieldHide = ObjectFieldHidden | ObjectFieldInherit | ObjectFieldVisible

datatype BinaryOp =
    BopMult | BopDiv | BopPercent
  | BopPlus | BopMinus
  | BopShiftL | BopShiftR
  | BopGreater | BopGreaterEq | BopLess | BopLessEq | BopIn
  | BopManifestEqual | BopManifestUnequal
  | BopBitwiseAnd | BopBitwiseXor | BopBitwiseOr
  | BopAnd | BopOr

datatype UnaryOp = UopNot | UopBitwiseNot | UopPlus | UopMinus

datatype UnlistedKind =
    AST_APPLY_BRACE | AST_ARRAY_COMPREHENSION | AST_ASSERT | AST_DOLLAR
  | AST_OBJECT | AST_OBJECT_COMPREHENSION | AST_SLICE

datatype Node =
    Apply Node "Node list" "NamedArgument list"
  | Array "Node list"
  | Binary Node BinaryOp Node
  | Conditional Node Node Node
  | DesugaredObject "Node list" "DesugaredObjectField list"
  | Error Node
  | Function "Identifier list" "NamedParameter list" Node
  | Import string
  | ImportStr string
  | InSuper Node
  | Index Node Node
  | LiteralBoolean bool
  | LiteralNull
  | LiteralNumber float64 string
  | LiteralString string
  | Local "LocalBind list" Node
  | Self
  | SuperIndex Node
  | Unary UnaryOp Node
  | Var Identifier
  | UnlistedNode UnlistedKind
and NamedArgument = NamedArgument Identifier Node
and NamedParameter = NamedParameter Identifier Node
and LocalBind = LocalBind Identifier Node
and DesugaredObjectField = DesugaredObjectField ObjectFieldHide Node Node bool

section \<open>Static analysis\<close>

text \<open>
  \<^verbatim>\<open>analyzeVisit\<close> of \<^verbatim>\<open>static_analyzer.go\<close>.  A static error is modelled by its message
  (its location is left out); the \<^verbatim>\<open>panic\<close> of the default branch is \<open>UnexpectedNode\<close>.

  Modelled from the spec: \<^verbatim>\<open>ast.IdentifierSet\<close> is generated code that is not among the
  sources; it is a set of identifiers, with \<^verbatim>\<open>Add\<close>, \<^verbatim>\<open>Append\<close>, \<^verbatim>\<open>Remove\<close>, \<^verbatim>\<open>Contains\<close> and
  \<^verbatim>\<open>Clone\<close>.

  \<^verbatim>\<open>analyzeVisit\<close> returns its error and stores the free variables in the node; the model
  returns both, the error and the free variables that the node holds afterwards.  These are
  the ones that \<^verbatim>\<open>SetFreeVariables\<close> stores, or, when a \<^verbatim>\<open>Var\<close>, \<^verbatim>\<open>Self\<close>, \<^verbatim>\<open>SuperIndex\<close> or
  \<^verbatim>\<open>InSuper\<close> node returns its error before that, the empty list that \<^verbatim>\<open>NewNodeBaseLoc\<close> gave
  the node.  The loops over the children are the functions \<open>visitNodes\<close>, \<open>visitNamed\<close>,
  \<open>visitDefaultArgs\<close>, \<open>visitBinds\<close> and \<open>visitFields\<close>.  The fields \<^verbatim>\<open>err\<close> and \<^verbatim>\<open>freeVars\<close>
  of the \<^verbatim>\<open>analysisState\<close> are \<open>stateErr\<close> and \<open>stateFreeVars\<close>.
\<close>

datatype staticFailure = StaticError string | UnexpectedNode

datatype analysisState =
  analysisState (stateErr: "staticFailure option") (stateFreeVars: "Identifier set")

definition newAnalysisState :: analysisState where
  "newAnalysisState = analysisState None {}"

fun paramName :: "NamedParameter \<Rightarrow> Identifier" where
  "paramName (NamedParameter n d) = n"

fun bindVariable :: "LocalBind \<Rightarrow> Identifier" where
  "bindVariable (LocalBind v b) = v"

function (sequential)
    analyzeVisit :: "Node \<Rightarrow> bool \<Rightarrow> Identifier set \<Rightarrow> staticFailure option \<times> Identifier set"
  and visitNext :: "Node \<Rightarrow> bool \<Rightarrow> Identifier set \<Rightarrow> analysisState \<Rightarrow> analysisState"
  and visitNodes :: "Node list \<Rightarrow> bool \<Rightarrow> Identifier set \<Rightarrow> analysisState \<Rightarrow> analysisState"
  and visitNamed :: "NamedArgument list \<Rightarrow> bool \<Rightarrow> Identifier set \<Rightarrow> analysisState \<Rightarrow> analysisState"
  and visitDefaultArgs ::
    "NamedParameter list \<Rightarrow> bool \<Rightarrow> Identifier set \<Rightarrow> analysisState \<Rightarrow> analysisState"
  and visitBinds :: "LocalBind list \<Rightarrow> bool \<Rightarrow> Identifier set \<Rightarrow> analysisState \<Rightarrow> analysisState"
  and visitFields ::
    "DesugaredObjectField list \<Rightarrow> bool \<Rightarrow> Identifier set \<Rightarrow> analysisState \<Rightarrow> analysisState"
where
  "visitNext a inObject vars state =
     (if stateErr state \<noteq> None then state
      else analysisState (fst (analyzeVisit a inObject vars))
             (stateFreeVars state \<union> snd (analyzeVisit a inObject vars)))"
| "visitNodes [] inObject vars s = s"
| "visitNodes (a # as) inObject vars s = visitNodes as inObject vars (visitNext a inObject vars s)"
| "visitNamed [] inObject vars s = s"
| "visitNamed (NamedArgument n a # as) inObject vars s =
     visitNamed as inObject vars (visitNext a inObject vars s)"
| "visitDefaultArgs [] inObject vars s = s"
| "visitDefaultArgs (NamedParameter n d # ps) inObject vars s =
     visitDefaultArgs ps inObject vars (visitNext d inObject vars s)"
| "visitBinds [] inObject vars s = s"
| "visitBinds (LocalBind v b # bs) inObject vars s =
     visitBinds bs inObject vars (visitNext b inObject vars s)"
| "visitFields [] inObject vars s = s"
| "visitFields (DesugaredObjectField h n b p # fs) inObject vars s =
     visitFields fs inObject vars (visitNext b True vars (visitNext n inObject vars s))"
| "analyzeVisit (Apply target positional named) inObject vars =
     (let s = visitNamed named inObject vars
                (visitNodes positional inObject vars
                  (visitNext target inObject vars newAnalysisState))
      in (stateErr s, stateFreeVars s))"
| "analyzeVisit (Array elements) inObject vars =
     (let s = visitNodes elements inObject vars newAnalysisState in (stateErr s, stateFreeVars s))"
| "analyzeVisit (Binary l op r) inObject vars =
     (let s = visitNext r inObject vars (visitNext l inObject vars newAnalysisState)
      in (stateErr s, stateFreeVars s))"
| "analyzeVisit (Conditional c t f) inObject vars =
     (let s = visitNext f inObject vars
                (visitNext t inObject vars (visitNext c inObject vars newAnalysisState))
      in (stateErr s, stateFreeVars s))"
| "analyzeVisit (Error ex) inObject vars =
     (let s = visitNext ex inObject vars newAnalysisState in (stateErr s, stateFreeVars s))"
| "analyzeVisit (Function required optional body) inObject vars =
     (let newVars = vars \<union> set required \<union> set (map paramName optional);
          s = visitNext body inObject newVars
                (visitDefaultArgs optional inObject newVars newAnalysisState)
      in (stateErr s, stateFreeVars s - set required - set (map paramName optional)))"
| "analyzeVisit (Import f) inObject vars = (None, {})"
| "analyzeVisit (ImportStr f) inObject vars = (None, {})"
| "analyzeVisit (InSuper index) inObject vars =
     (if \<not> inObject then (Some (StaticError ''Can't use super outside of an object.''), {})
      else (let s = visitNext index inObject vars newAnalysisState in (stateErr s, stateFreeVars s)))"
| "analyzeVisit (SuperIndex index) inObject vars =
     (if \<not> inObject then (Some (StaticError ''Can't use super outside of an object.''), {})
      else (let s = visitNext index inObject vars newAnalysisState in (stateErr s, stateFreeVars s)))"
| "analyzeVisit (Index target index) inObject vars =
     (let s = visitNext index inObject vars (visitNext target inObject vars newAnalysisState)
      in (stateErr s, stateFreeVars s))"
| "analyzeVisit (Local binds body) inObject vars =
     (let newVars = vars \<union> set (map bindVariable binds);
          s = visitNext body inObject newVars (visitBinds binds inObject newVars newAnalysisState)
      in (stateErr s, stateFreeVars s - set (map bindVariable binds)))"
| "analyzeVisit (LiteralBoolean b) inObject vars = (None, {})"
| "analyzeVisit LiteralNull inObject vars = (None, {})"
| "analyzeVisit (LiteralNumber v orig) inObject vars = (None, {})"
| "analyzeVisit (LiteralString v) inObject vars = (None, {})"
| "analyzeVisit (DesugaredObject asserts fields) inObject vars =
     (let s = visitNodes asserts True vars (visitFields fields inObject vars newAnalysisState)
      in (stateErr s, stateFreeVars s))"
| "analyzeVisit Self inObject vars =
     (if \<not> inObject then (Some (StaticError ''Can't use self outside of an object.''), {})
      else (None, {}))"
| "analyzeVisit (Unary op ex) inObject vars =
     (let s = visitNext ex inObject vars newAnalysisState in (stateErr s, stateFreeVars s))"
| "analyzeVisit (Var ident) inObject vars =
     (if ident \<notin> vars then (Some (StaticError (''Unknown variable: '' @ ident)), {})
      else (None, {ident}))"
| "analyzeVisit (UnlistedNode k) inObject vars = (Some UnexpectedNode, {})"
  by pat_completeness auto

termination
  by (relation "measure (\<lambda>x. case x of
        Inl (Inl (a, _)) \<Rightarrow> 2 * size a
      | Inl (Inr (Inl (a, _))) \<Rightarrow> 2 * size a + 1
      | Inl (Inr (Inr (as, _))) \<Rightarrow> 2 * size_list size as + 1
      | Inr (Inl (Inl (as, _))) \<Rightarrow> 2 * size_list size as + 1
      | Inr (Inl (Inr (as, _))) \<Rightarrow> 2 * size_list size as + 1
      | Inr (Inr (Inl (as, _))) \<Rightarrow> 2 * size_list size as + 1
      | Inr (Inr (Inr (as, _))) \<Rightarrow> 2 * size_list size as + 1)") auto

declare visitNext.simps [simp del]

definition analyze :: "Node \<Rightarrow> staticFailure option" where
  "analyze node = fst (analyzeVisit node False {''std''})"

text \<open>
  The trees that the analyzer is written for: no node of a kind that only exists before
  desugaring.
\<close>

primrec analyzable :: "Node \<Rightarrow> bool"
  and analyzableArg :: "NamedArgument \<Rightarrow> bool"
  and analyzableParam :: "NamedParameter \<Rightarrow> bool"
  and analyzableBind :: "LocalBind \<Rightarrow> bool"
  and analyzableField :: "DesugaredObjectField \<Rightarrow> bool"
where
  "analyzable (Apply target positional named) =
     (analyzable target \<and> list_all analyzable positional \<and> list_all analyzableArg named)"
| "analyzable (Array elements) = list_all analyzable elements"
| "analyzable (Binary l op r) = (analyzable l \<and> analyzable r)"
| "analyzable (Conditional c t f) = (analyzable c \<and> analyzable t \<and> analyzable f)"
| "analyzable (DesugaredObject asserts fields) =
     (list_all analyzable asserts \<and> list_all analyzableField fields)"
| "analyzable (Error ex) = analyzable ex"
| "analyzable (Function required optional body) =
     (list_all analyzableParam optional \<and> analyzable body)"
| "analyzable (Import f) = True"
| "analyzable (ImportStr f) = True"
| "analyzable (InSuper index) = analyzable index"
| "analyzable (Index target index) = (analyzable target \<and> analyzable index)"
| "analyzable (LiteralBoolean b) = True"
| "analyzable LiteralNull = True"
| "analyzable (LiteralNumber v orig) = True"
| "analyzable (LiteralString v) = True"
| "analyzable (Local binds body) = (list_all analyzableBind binds \<and> analyzable body)"
| "analyzable Self = True"
| "analyzable (SuperIndex index) = analyzable index"
| "analyzable (Unary op ex) = analyzable ex"
| "analyzable (Var ident) = True"
| "analyzable (UnlistedNode k) = False"
| "analyzableArg (NamedArgument n a) = analyzable a"
| "analyzableParam (NamedParameter n d) = analyzable d"
| "analyzableBind (LocalBind v b) = analyzable b"
| "analyzableField (DesugaredObjectField h n b p) = (analyzable n \<and> analyzable b)"

text \<open>
  The static errors of the spec, stated on the tree: \<open>violation inObject vars t\<close> holds when
  \<open>t\<close>, in a place where \<open>vars\<close> are the visible identifiers and \<open>inObject\<close> says whether an
  object encloses the place, contains a \<open>Var\<close> whose identifier is not bound in its scope, or
  a \<open>Self\<close>, \<open>SuperIndex\<close> or \<open>InSuper\<close> outside any object.  A function binds its parameters
  in its default arguments and body, a \<open>Local\<close> binds its variables in all its bindings and
  its body, and the bodies and assertions of an object are inside it, while its field names
  are not.
\<close>

inductive violation :: "bool \<Rightarrow> Identifier set \<Rightarrow> Node \<Rightarrow> bool" where
  unboundVar: "ident \<notin> vars \<Longrightarrow> violation inObject vars (Var ident)"
| selfOutside: "\<not> inObject \<Longrightarrow> violation inObject vars Self"
| superIndexOutside: "\<not> inObject \<Longrightarrow> violation inObject vars (SuperIndex index)"
| inSuperOutside: "\<not> inObject \<Longrightarrow> violation inObject vars (InSuper index)"
| inSuperIndex: "violation inObject vars index \<Longrightarrow> violation inObject vars (SuperIndex index)"
| inInSuper: "violation inObject vars index \<Longrightarrow> violation inObject vars (InSuper index)"
| inTarget: "violation inObject vars target \<Longrightarrow> violation inObject vars (Apply target ps ns)"
| inPositional:
    "a \<in> set ps \<Longrightarrow> violation inObject vars a \<Longrightarrow> violation inObject vars (Apply target ps ns)"
| inNamed:
    "NamedArgument n a \<in> set ns \<Longrightarrow> violation inObject vars a
      \<Longrightarrow> violation inObject vars (Apply target ps ns)"
| inElement:
    "a \<in> set elements \<Longrightarrow> violation inObject vars a \<Longrightarrow> violation inObject vars (Array elements)"
| inLeft: "violation inObject vars l \<Longrightarrow> violation inObject vars (Binary l op r)"
| inRight: "violation inObject vars r \<Longrightarrow> violation inObject vars (Binary l op r)"
| inCond: "violation inObject vars c \<Longrightarrow> violation inObject vars (Conditional c t f)"
| inBranchTrue: "violation inObject vars t \<Longrightarrow> violation inObject vars (Conditional c t f)"
| inBranchFalse: "violation inObject vars f \<Longrightarrow> violation inObject vars (Conditional c t f)"
| inError: "violation inObject vars ex \<Longrightarrow> violation inObject vars (Error ex)"
| inDefaultArg:
    "NamedParameter n d \<in> set optional
      \<Longrightarrow> violation inObject (vars \<union> set required \<union> set (map paramName optional)) d
      \<Longrightarrow> violation inObject vars (Function required optional body)"
| inFunctionBody:
    "violation inObject (vars \<union> set required \<union> set (map paramName optional)) body
      \<Longrightarrow> violation inObject vars (Function required optional body)"
| inIndexTarget: "violation inObject vars target \<Longrightarrow> violation inObject vars (Index target index)"
| inIndexIndex: "violation inObject vars index \<Longrightarrow> violation inObject vars (Index target index)"
| inBind:
    "LocalBind v b \<in> set binds
      \<Longrightarrow> violation inObject (vars \<union> set (map bindVariable binds)) b
      \<Longrightarrow> violation inObject vars (Local binds body)"
| inLocalBody:
    "violation inObject (vars \<union> set (map bindVariable binds)) body
      \<Longrightarrow> violation inObject vars (Local binds body)"
| inFieldName:
    "DesugaredObjectField h n b p \<in> set fs \<Longrightarrow> violation inObject vars n
      \<Longrightarrow> violation inObject vars (DesugaredObject as fs)"
| inFieldBody:
    "DesugaredObjectField h n b p \<in> set fs \<Longrightarrow> violation True vars b
      \<Longrightarrow> violation inObject vars (DesugaredObject as fs)"
| inAssert:
    "a \<in> set as \<Longrightarrow> violation True vars a \<Longrightarrow> violation inObject vars (DesugaredObject as fs)"
| inUnary: "violation inObject vars ex \<Longrightarrow> violation inObject vars (Unary op ex)"

inductive_simps violation_Var: "violation io vars (Var ident)"
inductive_simps violation_Self: "violation io vars Self"
inductive_simps violation_SuperIndex: "violation io vars (SuperIndex index)"
inductive_simps violation_InSuper: "violation io vars (InSuper index)"
inductive_simps violation_Apply: "violation io vars (Apply target ps ns)"
inductive_simps violation_Array: "violation io vars (Array elements)"
inductive_simps violation_Binary: "violation io vars (Binary l op r)"
inductive_simps violation_Conditional: "violation io vars (Conditional c t f)"
inductive_simps violation_Error: "violation io vars (Error ex)"
inductive_simps violation_Function: "violation io vars (Function required optional body)"
inductive_simps violation_Index: "violation io vars (Index target index)"
inductive_simps violation_Local: "violation io vars (Local binds body)"
inductive_simps violation_DesugaredObject: "violation io vars (DesugaredObject as fs)"
inductive_simps violation_Unary: "violation io vars (Unary op ex)"
inductive_simps violation_Import: "violation io vars (Import f)"
inductive_simps violation_ImportStr: "violation io vars (ImportStr f)"
inductive_simps violation_LiteralBoolean: "violation io vars (LiteralBoolean b)"
inductive_simps violation_LiteralNull: "violation io vars LiteralNull"
inductive_simps violation_LiteralNumber: "violation io vars (LiteralNumber v orig)"
inductive_simps violation_LiteralString: "violation io vars (LiteralString v)"
inductive_simps violation_UnlistedNode: "violation io vars (UnlistedNode k)"

section \<open>Values, thunks and objects\<close>

text \<open>
  Go's \<^verbatim>\<open>error\<close> results and panics.  \<open>RuntimeError\<close> is what \<^verbatim>\<open>e.Error(msg)\<close> builds (the
  stack trace it carries is not modelled).

  Modelled from the spec: \<^verbatim>\<open>typeErrorGeneral\<close> and the error of the typed \<^verbatim>\<open>get...\<close>
  helpers are methods of the evaluator, which is not among the sources; the spec has them
  report the expected and the actual typename, which the two type-error constructors record.
\<close>

datatype failure =
    RuntimeError string
  | TypeErrorSpecific string string
  | TypeErrorGeneral string
  | Panic string


fun isPanic :: "failure \<Rightarrow> bool" where
  "isPanic (Panic _) = True"
| "isPanic _ = False"

text \<open>
  A function value carries its \<^verbatim>\<open>evalCallable\<close>; the model keeps the identity of the
  callable, and the evaluator says what a call of it yields.  An unbound field is either
  code of the program (kept by identity) or the \<^verbatim>\<open>bindingsUnboundField\<close> wrapper of
  \<^verbatim>\<open>$objectFlatMerge\<close>.

  A \<^verbatim>\<open>potentialValue\<close> is a \<^verbatim>\<open>readyValue\<close>, a thunk, or the \<^verbatim>\<open>callThunk\<close> that
  \<^verbatim>\<open>fun.call(args)\<close> builds.  Evaluation is pure and memoised, so a thunk of the program is
  modelled by its identity together with the outcome of forcing it: a value (\<open>thunk\<close>) or
  an error (\<open>failingThunk\<close>).
\<close>

type_synonym evalCallable = nat

datatype "value" =
    valueNull
  | valueBoolean bool
  | valueNumber float64
  | valueString string
  | valueArray "potentialValue list"
  | valueFunction evalCallable
  | objectValue valueObject
and valueObject =
    valueSimpleObject
      (upValues: "(Identifier \<times> potentialValue) list")
      (fields: "(string \<times> valueSimpleObjectField) list")
      (asserts: "unboundField list")
  | valueExtendedObject valueObject valueObject
and valueSimpleObjectField =
    valueSimpleObjectField (hide: ObjectFieldHide) (field: unboundField)
and unboundField =
    codeUnboundField nat
  | bindingsUnboundField (inner: unboundField) (bindings: "(Identifier \<times> potentialValue) list")
and potentialValue =
    readyValue "value"
  | thunk nat "value"
  | failingThunk nat failure
  | callThunk evalCallable "potentialValue list"

type_synonym bindingFrame = "(Identifier \<times> potentialValue) list"

type_synonym valueSimpleObjectFieldMap = "(string \<times> valueSimpleObjectField) list"

text \<open>
  Modelled from the spec: \<^verbatim>\<open>typename\<close> is a method of the value types, which are not among
  the sources; the spec lists the seven typenames.
\<close>

fun typename :: "value \<Rightarrow> string" where
  "typename valueNull = ''null''"
| "typename (valueBoolean _) = ''boolean''"
| "typename (valueNumber _) = ''number''"
| "typename (valueString _) = ''string''"
| "typename (valueArray _) = ''array''"
| "typename (valueFunction _) = ''function''"
| "typename (objectValue _) = ''object''"

section \<open>The evaluator\<close>

text \<open>
  The builtins receive the evaluator \<^verbatim>\<open>e\<close>.  Of the interpreter behind it the builtins
  use the JSON manifestation of a value and the result of calling a function; both are
  fields of the model's evaluator.

  Forcing is the only effect of a builtin.  The model threads the log of the
  \<^verbatim>\<open>potentialValue\<close>s that were forced, in the order of the \<^verbatim>\<open>e.evaluate\<close> calls (a
  \<^verbatim>\<open>readyValue\<close> holds its value and is not logged; what \<^verbatim>\<open>manifestJSON\<close> forces inside a
  value is not logged).  A computation takes the log and returns an error or a result, and
  the new log.
\<close>

record evaluator =
  manifestJSON :: "value \<Rightarrow> failure + string"
  evalCall :: "evalCallable \<Rightarrow> potentialValue list \<Rightarrow> failure + value"

type_synonym forceLog = "potentialValue list"

type_synonym 'a eval = "forceLog \<Rightarrow> (failure + 'a) \<times> forceLog"

definition returnE :: "'a \<Rightarrow> 'a eval" where
  "returnE x s = (Inr x, s)"

definition throwE :: "failure \<Rightarrow> 'a eval" where
  "throwE err s = (Inl err, s)"

text \<open>\<open>bindE m f\<close> is Go's \<^verbatim>\<open>x, err := m; if err != nil { return nil, err }; f x\<close>.\<close>

definition bindE :: "'a eval \<Rightarrow> ('a \<Rightarrow> 'b eval) \<Rightarrow> 'b eval" where
  "bindE m f s = (case m s of (Inl err, s') \<Rightarrow> (Inl err, s') | (Inr x, s') \<Rightarrow> f x s')"

text \<open>
  Modelled from the spec: \<^verbatim>\<open>e.evaluate\<close> and the typed helpers \<^verbatim>\<open>e.evaluateNumber\<close>,
  \<^verbatim>\<open>e.getNumber\<close>, ... are methods of the evaluator, which is not among the sources.  By
  the spec, forcing returns the thunk's value or its error, and a typed helper fails with a
  type error that names the expected and the actual typename.
\<close>

fun outcome :: "evaluator \<Rightarrow> potentialValue \<Rightarrow> failure + value" where
  "outcome e (readyValue v) = Inr v"
| "outcome e (thunk n v) = Inr v"
| "outcome e (failingThunk n err) = Inl err"
| "outcome e (callThunk ec args) = evalCall e ec args"

fun forced :: "potentialValue \<Rightarrow> forceLog \<Rightarrow> forceLog" where
  "forced (readyValue v) s = s"
| "forced pv s = s @ [pv]"

definition evaluate :: "evaluator \<Rightarrow> potentialValue \<Rightarrow> value eval" where
  "evaluate e pv s = (outcome e pv, forced pv s)"

fun getNumber :: "value \<Rightarrow> float64 eval" where
  "getNumber (valueNumber x) = returnE x"
| "getNumber v = throwE (TypeErrorSpecific ''number'' (typename v))"

fun getString :: "value \<Rightarrow> string eval" where
  "getString (valueString x) = returnE x"
| "getString v = throwE (TypeErrorSpecific ''string'' (typename v))"

fun getBoolean :: "value \<Rightarrow> bool eval" where
  "getBoolean (valueBoolean x) = returnE x"
| "getBoolean v = throwE (TypeErrorSpecific ''boolean'' (typename v))"

fun getArray :: "value \<Rightarrow> potentialValue list eval" where
  "getArray (valueArray x) = returnE x"
| "getArray v = throwE (TypeErrorSpecific ''array'' (typename v))"

fun getFunction :: "value \<Rightarrow> evalCallable eval" where
  "getFunction (valueFunction x) = returnE x"
| "getFunction v = throwE (TypeErrorSpecific ''function'' (typename v))"

fun getObject :: "value \<Rightarrow> valueObject eval" where
  "getObject (objectValue x) = returnE x"
| "getObject v = throwE (TypeErrorSpecific ''object'' (typename v))"

definition evaluateNumber :: "evaluator \<Rightarrow> potentialValue \<Rightarrow> float64 eval" where
  "evaluateNumber e pv = bindE (evaluate e pv) getNumber"

definition evaluateString :: "evaluator \<Rightarrow> potentialValue \<Rightarrow> string eval" where
  "evaluateString e pv = bindE (evaluate e pv) getString"

definition evaluateBoolean :: "evaluator \<Rightarrow> potentialValue \<Rightarrow> bool eval" where
  "evaluateBoolean e pv = bindE (evaluate e pv) getBoolean"

definition evaluateArray :: "evaluator \<Rightarrow> potentialValue \<Rightarrow> potentialValue list eval" where
  "evaluateArray e pv = bindE (evaluate e pv) getArray"

definition evaluateFunction :: "evaluator \<Rightarrow> potentialValue \<Rightarrow> evalCallable eval" where
  "evaluateFunction e pv = bindE (evaluate e pv) getFunction"

definition evaluateObject :: "evaluator \<Rightarrow> potentialValue \<Rightarrow> valueObject eval" where
  "evaluateObject e pv = bindE (evaluate e pv) getObject"

definition typeErrorGeneral :: "value \<Rightarrow> failure" where
  "typeErrorGeneral v = TypeErrorGeneral (typename v)"

section \<open>Builtins\<close>

text \<open>
  Modelled from the spec: the constructors and the string and array helpers below belong to
  the value types, which are not among the sources.  By the spec a number value holds a
  double, strings and arrays are sequences, \<open>+\<close> on them is concatenation, an extended object
  is the pair of the left and the right object, and strings compare lexicographically by code
  point.
\<close>

definition makeValueNumber :: "float64 \<Rightarrow> value" where
  "makeValueNumber v = valueNumber v"

definition makeValueBoolean :: "bool \<Rightarrow> value" where
  "makeValueBoolean b = valueBoolean b"

definition makeValueString :: "string \<Rightarrow> value" where
  "makeValueString v = valueString v"

definition makeValueArray :: "potentialValue list \<Rightarrow> value" where
  "makeValueArray elems = valueArray elems"

definition makeValueExtendedObject :: "valueObject \<Rightarrow> valueObject \<Rightarrow> valueObject" where
  "makeValueExtendedObject l r = valueExtendedObject l r"

definition makeValueSimpleObject ::
    "bindingFrame \<Rightarrow> valueSimpleObjectFieldMap \<Rightarrow> unboundField list \<Rightarrow> valueObject" where
  "makeValueSimpleObject b flds as = valueSimpleObject b flds as"

definition concatStrings :: "string \<Rightarrow> string \<Rightarrow> value" where
  "concatStrings a b = valueString (a @ b)"

definition concatArrays :: "potentialValue list \<Rightarrow> potentialValue list \<Rightarrow> value" where
  "concatArrays a b = valueArray (a @ b)"

definition stringEqual :: "string \<Rightarrow> string \<Rightarrow> bool" where
  "stringEqual a b = (a = b)"

fun stringLessThan :: "string \<Rightarrow> string \<Rightarrow> bool" where
  "stringLessThan [] [] = False"
| "stringLessThan [] (b # bs) = True"
| "stringLessThan (a # as) [] = False"
| "stringLessThan (a # as) (b # bs) =
     (if (of_char a :: nat) < of_char b then True
      else if (of_char b :: nat) < of_char a then False
      else stringLessThan as bs)"

definition intToValue :: "int \<Rightarrow> value" where
  "intToValue i = makeValueNumber (intToFloat i)"

definition int64ToValue :: "64 word \<Rightarrow> value" where
  "int64ToValue i = makeValueNumber (intToFloat (sint i))"

definition args :: "potentialValue \<Rightarrow> potentialValue list" where
  "args pv = [pv]"

definition call :: "evalCallable \<Rightarrow> potentialValue list \<Rightarrow> potentialValue" where
  "call ec as = callThunk ec as"

text \<open>From here on the definitions follow \<^verbatim>\<open>builtins.go\<close>.\<close>

definition builtinToString :: "evaluator \<Rightarrow> potentialValue \<Rightarrow> value eval" where
  "builtinToString e xp =
     bindE (evaluate e xp) (\<lambda>x.
       case x of
         valueString s \<Rightarrow> returnE x
       | _ \<Rightarrow>
           (case manifestJSON e x of
              Inl err \<Rightarrow> throwE err
            | Inr buf \<Rightarrow> returnE (makeValueString buf)))"

definition builtinPlus :: "evaluator \<Rightarrow> potentialValue \<Rightarrow> potentialValue \<Rightarrow> value eval" where
  "builtinPlus e xp yp =
     bindE (evaluate e xp) (\<lambda>x.
     bindE (evaluate e yp) (\<lambda>y.
       case y of
         valueString right \<Rightarrow>
           bindE (builtinToString e xp) (\<lambda>left.
             case left of
               valueString l \<Rightarrow> returnE (concatStrings l right)
             | _ \<Rightarrow> throwE (Panic ''interface conversion''))
       | _ \<Rightarrow>
           (case x of
              valueNumber left \<Rightarrow>
                bindE (getNumber y) (\<lambda>right. returnE (makeValueNumber (fadd left right)))
            | valueString left \<Rightarrow>
                bindE (builtinToString e yp) (\<lambda>right.
                  case right of
                    valueString r \<Rightarrow> returnE (concatStrings left r)
                  | _ \<Rightarrow> throwE (Panic ''interface conversion''))
            | objectValue left \<Rightarrow>
                bindE (getObject y) (\<lambda>right.
                  returnE (objectValue (makeValueExtendedObject left right)))
            | valueArray left \<Rightarrow>
                bindE (getArray y) (\<lambda>right. returnE (concatArrays left right))
            | _ \<Rightarrow> throwE (typeErrorGeneral x))))"

definition builtinMinus :: "evaluator \<Rightarrow> potentialValue \<Rightarrow> potentialValue \<Rightarrow> value eval" where
  "builtinMinus e xp yp =
     bindE (evaluateNumber e xp) (\<lambda>x.
     bindE (evaluateNumber e yp) (\<lambda>y.
       returnE (makeValueNumber (fsub x y))))"

definition builtinMult :: "evaluator \<Rightarrow> potentialValue \<Rightarrow> potentialValue \<Rightarrow> value eval" where
  "builtinMult e xp yp =
     bindE (evaluateNumber e xp) (\<lambda>x.
     bindE (evaluateNumber e yp) (\<lambda>y.
       returnE (makeValueNumber (fmul x y))))"

definition makeDoubleCheck :: "float64 \<Rightarrow> value eval" where
  "makeDoubleCheck x =
     (if isNaN x then throwE (RuntimeError ''Not a number'')
      else if isInf x then throwE (RuntimeError ''Overflow'')
      else returnE (makeValueNumber x))"

definition builtinDiv :: "evaluator \<Rightarrow> potentialValue \<Rightarrow> potentialValue \<Rightarrow> value eval" where
  "builtinDiv e xp yp =
     bindE (evaluateNumber e xp) (\<lambda>x.
     bindE (evaluateNumber e yp) (\<lambda>y.
       if feq y (Finite 0) then throwE (RuntimeError ''Division by zero.'')
       else makeDoubleCheck (fdiv x y)))"

definition builtinModulo :: "evaluator \<Rightarrow> potentialValue \<Rightarrow> potentialValue \<Rightarrow> value eval" where
  "builtinModulo e xp yp =
     bindE (evaluateNumber e xp) (\<lambda>x.
     bindE (evaluateNumber e yp) (\<lambda>y.
       if feq y (Finite 0) then throwE (RuntimeError ''Division by zero.'')
       else makeDoubleCheck (fmod x y)))"

definition builtinLess :: "evaluator \<Rightarrow> potentialValue \<Rightarrow> potentialValue \<Rightarrow> value eval" where
  "builtinLess e xp yp =
     bindE (evaluate e xp) (\<lambda>x.
       case x of
         valueNumber left \<Rightarrow>
           bindE (evaluateNumber e yp) (\<lambda>right. returnE (makeValueBoolean (fless left right)))
       | valueString left \<Rightarrow>
           bindE (evaluateString e yp) (\<lambda>right.
             returnE (makeValueBoolean (stringLessThan left right)))
       | _ \<Rightarrow> throwE (typeErrorGeneral x))"

definition builtinGreater :: "evaluator \<Rightarrow> potentialValue \<Rightarrow> potentialValue \<Rightarrow> value eval" where
  "builtinGreater e xp yp = builtinLess e yp xp"

text \<open>\<^verbatim>\<open>res.(*valueBoolean).not()\<close>; the type assertion panics on another value.\<close>

fun notBoolean :: "value \<Rightarrow> value eval" where
  "notBoolean (valueBoolean b) = returnE (valueBoolean (\<not> b))"
| "notBoolean v = throwE (Panic ''interface conversion'')"

definition builtinGreaterEq :: "evaluator \<Rightarrow> potentialValue \<Rightarrow> potentialValue \<Rightarrow> value eval" where
  "builtinGreaterEq e xp yp = bindE (builtinLess e xp yp) notBoolean"

definition builtinLessEq :: "evaluator \<Rightarrow> potentialValue \<Rightarrow> potentialValue \<Rightarrow> value eval" where
  "builtinLessEq e xp yp = bindE (builtinGreater e xp yp) notBoolean"

definition builtinAnd :: "evaluator \<Rightarrow> potentialValue \<Rightarrow> potentialValue \<Rightarrow> value eval" where
  "builtinAnd e xp yp =
     bindE (evaluateBoolean e xp) (\<lambda>x.
       if \<not> x then returnE (valueBoolean x)
       else bindE (evaluateBoolean e yp) (\<lambda>y. returnE (valueBoolean y)))"

definition builtinOr :: "evaluator \<Rightarrow> potentialValue \<Rightarrow> potentialValue \<Rightarrow> value eval" where
  "builtinOr e xp yp =
     bindE (evaluateBoolean e xp) (\<lambda>x.
       if x then returnE (valueBoolean x)
       else bindE (evaluateBoolean e yp) (\<lambda>y. returnE (valueBoolean y)))"

text \<open>The loop of \<^verbatim>\<open>builtinMakeArray\<close>: \<^verbatim>\<open>for i := 0; i < num; i++\<close>, appending to \<^verbatim>\<open>elems\<close>.\<close>

function makeArrayLoop ::
    "evalCallable \<Rightarrow> int \<Rightarrow> int \<Rightarrow> potentialValue list \<Rightarrow> potentialValue list" where
  "makeArrayLoop f i num elems =
     (if i < num
      then makeArrayLoop f (i + 1) num (elems @ [call f (args (readyValue (intToValue i)))])
      else elems)"
  by pat_completeness auto
termination
  by (relation "measure (\<lambda>(f, i, num, elems). nat (num - i))") auto

declare makeArrayLoop.simps [simp del]

definition builtinMakeArray :: "evaluator \<Rightarrow> potentialValue \<Rightarrow> potentialValue \<Rightarrow> value eval" where
  "builtinMakeArray e szp funcp =
     bindE (evaluateNumber e szp) (\<lambda>sz.
     bindE (evaluateFunction e funcp) (\<lambda>f.
       returnE (makeValueArray (makeArrayLoop f 0 (floatToInt sz) []))))"

definition primitiveEquals :: "evaluator \<Rightarrow> potentialValue \<Rightarrow> potentialValue \<Rightarrow> value eval" where
  "primitiveEquals e xp yp =
     bindE (evaluate e xp) (\<lambda>x.
     bindE (evaluate e yp) (\<lambda>y.
       if typename x \<noteq> typename y then returnE (makeValueBoolean False)
       else
         (case x of
            valueBoolean left \<Rightarrow>
              bindE (getBoolean y) (\<lambda>right. returnE (makeValueBoolean (left = right)))
          | valueNumber left \<Rightarrow>
              bindE (getNumber y) (\<lambda>right. returnE (makeValueBoolean (feq left right)))
          | valueString left \<Rightarrow>
              bindE (getString y) (\<lambda>right. returnE (makeValueBoolean (stringEqual left right)))
          | valueNull \<Rightarrow> returnE (makeValueBoolean True)
          | valueFunction _ \<Rightarrow> throwE (RuntimeError ''Cannot test equality of functions'')
          | _ \<Rightarrow>
              throwE (RuntimeError
                (''primitiveEquals operates on primitive types, got '' @ typename x)))))"

text \<open>
  \<^verbatim>\<open>liftBitwise\<close>: both operands are converted to \<^verbatim>\<open>int64\<close>, and the result goes through
  the double check.  A Go shift by 64 or more gives zero, or the sign for \<^verbatim>\<open>>>\<close>, as
  \<open>push_bit\<close> and \<open>signed_drop_bit\<close> do on a 64-bit word; \<^verbatim>\<open>uint(y)\<close> reads the bits of
  \<^verbatim>\<open>y\<close> as unsigned.
\<close>

definition liftBitwise ::
    "(64 word \<Rightarrow> 64 word \<Rightarrow> 64 word) \<Rightarrow> evaluator \<Rightarrow> potentialValue \<Rightarrow> potentialValue \<Rightarrow> value eval" where
  "liftBitwise f e xp yp =
     bindE (evaluateNumber e xp) (\<lambda>x.
     bindE (evaluateNumber e yp) (\<lambda>y.
       makeDoubleCheck (intToFloat (sint (f (word_of_int (floatToInt x)) (word_of_int (floatToInt y)))))))"

definition builtinShiftL :: "evaluator \<Rightarrow> potentialValue \<Rightarrow> potentialValue \<Rightarrow> value eval" where
  "builtinShiftL = liftBitwise (\<lambda>x y. push_bit (unat y) x)"

definition builtinShiftR :: "evaluator \<Rightarrow> potentialValue \<Rightarrow> potentialValue \<Rightarrow> value eval" where
  "builtinShiftR = liftBitwise (\<lambda>x y. signed_drop_bit (unat y) x)"

definition builtinBitwiseAnd :: "evaluator \<Rightarrow> potentialValue \<Rightarrow> potentialValue \<Rightarrow> value eval" where
  "builtinBitwiseAnd = liftBitwise (\<lambda>x y. and x y)"

definition builtinBitwiseOr :: "evaluator \<Rightarrow> potentialValue \<Rightarrow> potentialValue \<Rightarrow> value eval" where
  "builtinBitwiseOr = liftBitwise (\<lambda>x y. or x y)"

definition builtinBitwiseXor :: "evaluator \<Rightarrow> potentialValue \<Rightarrow> potentialValue \<Rightarrow> value eval" where
  "builtinBitwiseXor = liftBitwise (\<lambda>x y. xor x y)"

subsection \<open>\<^verbatim>\<open>$objectFlatMerge\<close>\<close>

text \<open>
  A Go map is modelled as an association list: its order is the order in which \<^verbatim>\<open>range\<close>
  happens to visit the map, and an insertion appends.

  Modelled from the spec: \<^verbatim>\<open>duplicateFieldNameErrMsg\<close> is not among the sources; the spec
  gives the message.
\<close>

definition duplicateFieldNameErrMsg :: "string \<Rightarrow> string" where
  "duplicateFieldNameErrMsg fieldName = ''duplicate field name: '' @ fieldName"

text \<open>The inner loop, over the fields of one object.\<close>

fun flatMergeFields ::
    "bindingFrame \<Rightarrow> valueSimpleObjectFieldMap \<Rightarrow> valueSimpleObjectFieldMap
      \<Rightarrow> failure + valueSimpleObjectFieldMap" where
  "flatMergeFields up [] newFields = Inr newFields"
| "flatMergeFields up ((fieldName, fieldVal) # rest) newFields =
     (if map_of newFields fieldName \<noteq> None
      then Inl (RuntimeError (duplicateFieldNameErrMsg fieldName))
      else flatMergeFields up rest
             (newFields @
               [(fieldName,
                 valueSimpleObjectField (hide fieldVal) (bindingsUnboundField (field fieldVal) up))]))"

text \<open>The outer loop, over the elements of the array; \<^verbatim>\<open>obj.(*valueSimpleObject)\<close> panics on
  an extended object.\<close>

fun flatMergeElements ::
    "evaluator \<Rightarrow> potentialValue list \<Rightarrow> valueSimpleObjectFieldMap \<Rightarrow> valueSimpleObjectFieldMap eval" where
  "flatMergeElements e [] newFields = returnE newFields"
| "flatMergeElements e (elem # rest) newFields =
     bindE (evaluateObject e elem) (\<lambda>obj.
       case obj of
         valueSimpleObject up flds as \<Rightarrow>
           (case flatMergeFields up flds newFields of
              Inl err \<Rightarrow> throwE err
            | Inr newFields' \<Rightarrow> flatMergeElements e rest newFields')
       | valueExtendedObject _ _ \<Rightarrow> throwE (Panic ''interface conversion''))"

definition builtinUglyObjectFlatMerge :: "evaluator \<Rightarrow> potentialValue \<Rightarrow> value eval" where
  "builtinUglyObjectFlatMerge e objarrp =
     bindE (evaluateArray e objarrp) (\<lambda>objarr.
       if length objarr = 0 then returnE (objectValue (valueSimpleObject [] [] []))
       else
         bindE (flatMergeElements e objarr []) (\<lambda>newFields.
           returnE (objectValue (makeValueSimpleObject [] newFields []))))"

subsection \<open>The operator tables\<close>

type_synonym binaryBuiltin = "evaluator \<Rightarrow> potentialValue \<Rightarrow> potentialValue \<Rightarrow> value eval"

record BinaryBuiltin =
  name :: Identifier
  func :: binaryBuiltin
  parameters :: "Identifier list"

definition todoFunc :: binaryBuiltin where
  "todoFunc e x y = throwE (RuntimeError ''not implemented yet'')"

definition todo :: BinaryBuiltin where
  "todo = \<lparr> name = [], func = todoFunc, parameters = [''x'', ''y''] \<rparr>"

fun desugaredBop :: "BinaryOp \<Rightarrow> Identifier option" where
  "desugaredBop BopPercent = Some ''mod''"
| "desugaredBop BopManifestEqual = Some ''equals''"
| "desugaredBop BopManifestUnequal = Some ''notEquals''"
| "desugaredBop BopIn = Some ''objectHasAll''"
| "desugaredBop _ = None"

text \<open>\<^verbatim>\<open>bopBuiltins\<close> is a slice indexed by the operator; the slots it does not list are nil.\<close>

definition binaryBuiltinXY :: "Identifier \<Rightarrow> binaryBuiltin \<Rightarrow> BinaryBuiltin" where
  "binaryBuiltinXY n f = \<lparr> name = n, func = f, parameters = [''x'', ''y''] \<rparr>"

fun bopBuiltins :: "BinaryOp \<Rightarrow> BinaryBuiltin option" where
  "bopBuiltins BopMult = Some (binaryBuiltinXY ''operator*'' builtinMult)"
| "bopBuiltins BopDiv = Some (binaryBuiltinXY ''operator/'' builtinDiv)"
| "bopBuiltins BopPercent = Some todo"
| "bopBuiltins BopPlus = Some (binaryBuiltinXY ''operator+'' builtinPlus)"
| "bopBuiltins BopMinus = Some (binaryBuiltinXY ''operator-'' builtinMinus)"
| "bopBuiltins BopShiftL = Some (binaryBuiltinXY ''operator<<'' builtinShiftL)"
| "bopBuiltins BopShiftR = Some (binaryBuiltinXY ''operator>>'' builtinShiftR)"
| "bopBuiltins BopGreater = Some (binaryBuiltinXY ''operator>'' builtinGreater)"
| "bopBuiltins BopGreaterEq = Some (binaryBuiltinXY ''operator>='' builtinGreaterEq)"
| "bopBuiltins BopLess = Some (binaryBuiltinXY ''operator<,'' builtinLess)"
| "bopBuiltins BopLessEq = Some (binaryBuiltinXY ''operator<='' builtinLessEq)"
| "bopBuiltins BopBitwiseAnd = Some (binaryBuiltinXY ''operator&'' builtinBitwiseAnd)"
| "bopBuiltins BopBitwiseXor = Some (binaryBuiltinXY ''operator^'' builtinBitwiseXor)"
| "bopBuiltins BopBitwiseOr = Some (binaryBuiltinXY ''operator|'' builtinBitwiseOr)"
| "bopBuiltins BopAnd = Some (binaryBuiltinXY ''operator&&'' builtinAnd)"
| "bopBuiltins BopOr = Some (binaryBuiltinXY ''operator||'' builtinOr)"
| "bopBuiltins _ = None"

text \<open>
  \<^verbatim>\<open>BinaryBuiltin.EvalCall\<close>: the builtin's function on the first two positional arguments;
  indexing a shorter argument list panics.
\<close>

definition EvalCall :: "BinaryBuiltin \<Rightarrow> potentialValue list \<Rightarrow> evaluator \<Rightarrow> value eval" where
  "EvalCall b positional e =
     (case positional of
        x # y # _ \<Rightarrow> func b e x y
      | _ \<Rightarrow> throwE (Panic ''index out of range''))"

section \<open>Definitions for stating the properties\<close>

text \<open>
  An evaluator for the concrete instances: it manifests null and the booleans, and every
  call yields null.
\<close>

definition exampleEvaluator :: evaluator where
  "exampleEvaluator =
     \<lparr> manifestJSON =
         (\<lambda>v. case v of
            valueNull \<Rightarrow> Inr ''null''
          | valueBoolean b \<Rightarrow> Inr (if b then ''true'' else ''false'')
          | _ \<Rightarrow> Inl (RuntimeError ''not manifested'')),
       evalCall = (\<lambda>ec as. Inr valueNull) \<rparr>"

text \<open>
  The log that a comparison leaves when it forces \<open>first\<close> and then, if \<open>first\<close> is a number
  or a string, \<open>second\<close>.
\<close>

definition comparisonLog ::
    "evaluator \<Rightarrow> potentialValue \<Rightarrow> potentialValue \<Rightarrow> forceLog \<Rightarrow> forceLog" where
  "comparisonLog e first second s =
     (case outcome e first of
        Inr (valueNumber _) \<Rightarrow> forced second (forced first s)
      | Inr (valueString _) \<Rightarrow> forced second (forced first s)
      | _ \<Rightarrow> forced first s)"


text \<open>A computation panics when it ends in a Go panic rather than in a returned error.\<close>

definition panics :: "(failure + 'a) \<times> forceLog \<Rightarrow> bool" where
  "panics r = (case fst r of Inl err \<Rightarrow> isPanic err | Inr _ \<Rightarrow> False)"

text \<open>
  A simple object as the triple of its \<^verbatim>\<open>upValues\<close>, field table and assertions; the names of
  its fields; its fields as \<^verbatim>\<open>$objectFlatMerge\<close> copies them, each with its hide flag and with
  its unbound field wrapped in a \<^verbatim>\<open>bindingsUnboundField\<close> that holds the \<^verbatim>\<open>upValues\<close> of the
  object; and the field table that collects the copied fields of a list of objects.
\<close>

type_synonym simpleObject = "bindingFrame \<times> valueSimpleObjectFieldMap \<times> unboundField list"

definition simpleObjectValue :: "simpleObject \<Rightarrow> value" where
  "simpleObjectValue obj = (case obj of (up, flds, as) \<Rightarrow> objectValue (valueSimpleObject up flds as))"

definition fieldNames :: "simpleObject \<Rightarrow> string list" where
  "fieldNames obj = (case obj of (up, flds, as) \<Rightarrow> map fst flds)"

definition wrapFields :: "bindingFrame \<Rightarrow> valueSimpleObjectFieldMap \<Rightarrow> valueSimpleObjectFieldMap" where
  "wrapFields up flds =
     map (\<lambda>(fieldName, fieldVal).
            (fieldName, valueSimpleObjectField (hide fieldVal) (bindingsUnboundField (field fieldVal) up)))
       flds"

definition mergedFields :: "simpleObject list \<Rightarrow> valueSimpleObjectFieldMap" where
  "mergedFields objs = concat (map (\<lambda>(up, flds, as). wrapFields up flds) objs)"

text \<open>
  How the error of the analysis state passes a visit: \<open>threads r s D V\<close> relates the error \<open>r\<close>
  after the visit to the error \<open>s\<close> before it, where \<open>D\<close> says that the visited trees are
  analyzable and \<open>V\<close> that one of them has a violation.
\<close>

definition threads :: "staticFailure option \<Rightarrow> staticFailure option \<Rightarrow> bool \<Rightarrow> bool \<Rightarrow> bool" where
  "threads r s D V \<longleftrightarrow>
     (r = None \<longleftrightarrow> s = None \<and> D \<and> \<not> V)
     \<and> (\<forall>m. r = Some (StaticError m) \<longrightarrow> s = Some (StaticError m) \<or> V)
     \<and> (r = Some UnexpectedNode \<longrightarrow> s = Some UnexpectedNode \<or> \<not> D)"

section \<open>Forcing and the log\<close>

lemmas eval_defs = evaluate_def bindE_def returnE_def throwE_def evaluateBoolean_def
  evaluateNumber_def evaluateString_def evaluateArray_def evaluateFunction_def evaluateObject_def

lemma snd_getNumber: "snd (getNumber v s) = s"
  by (cases v) (simp_all add: returnE_def throwE_def)

lemma snd_getString: "snd (getString v s) = s"
  by (cases v) (simp_all add: returnE_def throwE_def)

lemma snd_notBoolean: "snd (notBoolean v s) = s"
  by (cases v) (simp_all add: returnE_def throwE_def)

lemma snd_evaluateNumber: "snd (evaluateNumber e pv s) = forced pv s"
  by (cases "outcome e pv") (simp_all add: evaluateNumber_def evaluate_def bindE_def snd_getNumber)

lemma snd_evaluateString: "snd (evaluateString e pv s) = forced pv s"
  by (cases "outcome e pv") (simp_all add: evaluateString_def evaluate_def bindE_def snd_getString)

lemma snd_bindE_returnE: "snd (bindE m (\<lambda>x. returnE (f x)) s) = snd (m s)"
  by (cases "m s" rule: prod.exhaust; cases "fst (m s)") (simp_all add: bindE_def returnE_def)

lemma snd_builtinLess: "snd (builtinLess e xp yp s) = comparisonLog e xp yp s"
proof (cases "outcome e xp")
  case (Inl err)
  then show ?thesis
    by (simp add: builtinLess_def comparisonLog_def evaluate_def bindE_def)
next
  case (Inr x)
  then show ?thesis
    by (cases x)
      (simp_all add: builtinLess_def comparisonLog_def evaluate_def bindE_def [of "evaluate e xp"]
        bindE_def [of "\<lambda>s. (outcome e xp, forced xp s)"]
        snd_bindE_returnE snd_evaluateNumber snd_evaluateString throwE_def)
qed

lemma snd_bind_notBoolean: "snd (bindE m notBoolean s) = snd (m s)"
  by (cases "m s" rule: prod.exhaust; cases "fst (m s)") (simp_all add: bindE_def snd_notBoolean)

section \<open>The short-circuit operators\<close>

text \<open>
  C3: \<^verbatim>\<open>&&\<close> and \<^verbatim>\<open>||\<close> force their left operand first, whatever it is.  If it is the
  boolean false (for \<^verbatim>\<open>&&\<close>) or true (for \<^verbatim>\<open>||\<close>), that boolean is the result and the log
  holds the forcing of the left operand only: the right operand is not forced.  If the left
  operand is the other boolean, the right operand is forced next and decides: a boolean is
  the result, another value is a type error, and its error is the error of the operator.  An
  error of the left operand, or a left operand that is not a boolean, ends the evaluation
  before the right operand is forced.
\<close>

theorem builtinAnd_builtinOr_short_circuit:
  "(outcome e xp = Inr (valueBoolean False) \<longrightarrow>
      builtinAnd e xp yp s = (Inr (valueBoolean False), forced xp s))
   \<and> (outcome e xp = Inr (valueBoolean True) \<longrightarrow>
      builtinOr e xp yp s = (Inr (valueBoolean True), forced xp s))
   \<and> (outcome e xp = Inr (valueBoolean True) \<and> outcome e yp = Inr (valueBoolean b) \<longrightarrow>
      builtinAnd e xp yp s = (Inr (valueBoolean b), forced yp (forced xp s)))
   \<and> (outcome e xp = Inr (valueBoolean False) \<and> outcome e yp = Inr (valueBoolean b) \<longrightarrow>
      builtinOr e xp yp s = (Inr (valueBoolean b), forced yp (forced xp s)))
   \<and> (outcome e xp = Inr (valueBoolean True) \<and> outcome e yp = Inr v \<and> typename v \<noteq> ''boolean'' \<longrightarrow>
      builtinAnd e xp yp s =
        (Inl (TypeErrorSpecific ''boolean'' (typename v)), forced yp (forced xp s)))
   \<and> (outcome e xp = Inr (valueBoolean False) \<and> outcome e yp = Inr v \<and> typename v \<noteq> ''boolean'' \<longrightarrow>
      builtinOr e xp yp s =
        (Inl (TypeErrorSpecific ''boolean'' (typename v)), forced yp (forced xp s)))
   \<and> (outcome e xp = Inr (valueBoolean True) \<and> outcome e yp = Inl err \<longrightarrow>
      builtinAnd e xp yp s = (Inl err, forced yp (forced xp s)))
   \<and> (outcome e xp = Inr (valueBoolean False) \<and> outcome e yp = Inl err \<longrightarrow>
      builtinOr e xp yp s = (Inl err, forced yp (forced xp s)))
   \<and> (outcome e xp = Inl err \<longrightarrow>
      builtinAnd e xp yp s = (Inl err, forced xp s) \<and> builtinOr e xp yp s = (Inl err, forced xp s))
   \<and> (outcome e xp = Inr v \<and> typename v \<noteq> ''boolean'' \<longrightarrow>
      builtinAnd e xp yp s = (Inl (TypeErrorSpecific ''boolean'' (typename v)), forced xp s)
      \<and> builtinOr e xp yp s = (Inl (TypeErrorSpecific ''boolean'' (typename v)), forced xp s))"
  by (cases v) (simp_all add: builtinAnd_def builtinOr_def eval_defs)

theorem builtinAnd_builtinOr_short_circuit_witness:
  "builtinAnd exampleEvaluator (thunk 1 (valueBoolean False)) (failingThunk 2 (RuntimeError ''boom'')) []
     = (Inr (valueBoolean False), [thunk 1 (valueBoolean False)])
   \<and> builtinOr exampleEvaluator (thunk 1 (valueBoolean True)) (failingThunk 2 (RuntimeError ''boom'')) []
     = (Inr (valueBoolean True), [thunk 1 (valueBoolean True)])
   \<and> builtinAnd exampleEvaluator (thunk 1 (valueBoolean True)) (thunk 2 (valueBoolean False)) []
     = (Inr (valueBoolean False), [thunk 1 (valueBoolean True), thunk 2 (valueBoolean False)])
   \<and> builtinOr exampleEvaluator (thunk 1 (valueBoolean False)) (thunk 2 (valueBoolean True)) []
     = (Inr (valueBoolean True), [thunk 1 (valueBoolean False), thunk 2 (valueBoolean True)])
   \<and> builtinAnd exampleEvaluator (thunk 1 (valueBoolean True)) (thunk 2 valueNull) []
     = (Inl (TypeErrorSpecific ''boolean'' ''null''), [thunk 1 (valueBoolean True), thunk 2 valueNull])
   \<and> builtinOr exampleEvaluator (thunk 1 (valueBoolean False)) (thunk 2 valueNull) []
     = (Inl (TypeErrorSpecific ''boolean'' ''null''), [thunk 1 (valueBoolean False), thunk 2 valueNull])
   \<and> builtinAnd exampleEvaluator (thunk 1 (valueBoolean True)) (failingThunk 2 (RuntimeError ''boom'')) []
     = (Inl (RuntimeError ''boom''),
        [thunk 1 (valueBoolean True), failingThunk 2 (RuntimeError ''boom'')])
   \<and> builtinOr exampleEvaluator (thunk 1 (valueBoolean False)) (failingThunk 2 (RuntimeError ''boom'')) []
     = (Inl (RuntimeError ''boom''),
        [thunk 1 (valueBoolean False), failingThunk 2 (RuntimeError ''boom'')])
   \<and> builtinAnd exampleEvaluator
        (failingThunk 1 (RuntimeError ''left'')) (failingThunk 2 (RuntimeError ''right'')) []
     = (Inl (RuntimeError ''left''), [failingThunk 1 (RuntimeError ''left'')])
   \<and> builtinOr exampleEvaluator
        (failingThunk 1 (RuntimeError ''left'')) (failingThunk 2 (RuntimeError ''right'')) []
     = (Inl (RuntimeError ''left''), [failingThunk 1 (RuntimeError ''left'')])
   \<and> builtinAnd exampleEvaluator (thunk 1 valueNull) (thunk 2 (valueBoolean True)) []
     = (Inl (TypeErrorSpecific ''boolean'' ''null''), [thunk 1 valueNull])
   \<and> builtinOr exampleEvaluator (thunk 1 valueNull) (thunk 2 (valueBoolean True)) []
     = (Inl (TypeErrorSpecific ''boolean'' ''null''), [thunk 1 valueNull])"
  using
    builtinAnd_builtinOr_short_circuit [where e = exampleEvaluator and s = "[]"
      and xp = "thunk 1 (valueBoolean False)" and yp = "failingThunk 2 (RuntimeError ''boom'')"
      and err = "RuntimeError ''boom''"]
    builtinAnd_builtinOr_short_circuit [where e = exampleEvaluator and s = "[]"
      and xp = "thunk 1 (valueBoolean True)" and yp = "failingThunk 2 (RuntimeError ''boom'')"
      and err = "RuntimeError ''boom''"]
    builtinAnd_builtinOr_short_circuit [where e = exampleEvaluator and s = "[]"
      and xp = "thunk 1 (valueBoolean True)" and yp = "thunk 2 (valueBoolean False)" and b = False]
    builtinAnd_builtinOr_short_circuit [where e = exampleEvaluator and s = "[]"
      and xp = "thunk 1 (valueBoolean False)" and yp = "thunk 2 (valueBoolean True)" and b = True]
    builtinAnd_builtinOr_short_circuit [where e = exampleEvaluator and s = "[]"
      and xp = "thunk 1 (valueBoolean True)" and yp = "thunk 2 valueNull" and v = valueNull]
    builtinAnd_builtinOr_short_circuit [where e = exampleEvaluator and s = "[]"
      and xp = "thunk 1 (valueBoolean False)" and yp = "thunk 2 valueNull" and v = valueNull]
    builtinAnd_builtinOr_short_circuit [where e = exampleEvaluator and s = "[]"
      and xp = "failingThunk 1 (RuntimeError ''left'')" and yp = "failingThunk 2 (RuntimeError ''right'')"
      and err = "RuntimeError ''left''"]
    builtinAnd_builtinOr_short_circuit [where e = exampleEvaluator and s = "[]"
      and xp = "thunk 1 valueNull" and yp = "thunk 2 (valueBoolean True)" and v = valueNull]
  by simp

section \<open>The comparison operators\<close>

text \<open>
  C4, as the code has it: \<^verbatim>\<open><\<close> and \<^verbatim>\<open>>=\<close> force the left operand first and then, if it is
  a number or a string, the right operand; \<^verbatim>\<open>>\<close> and \<^verbatim>\<open><=\<close> are \<^verbatim>\<open><\<close> with the operands
  exchanged, so they force the right operand first and then, if it is a number or a string,
  the left operand.  The order is a function of the operands, hence deterministic.
\<close>

theorem comparison_forcing_order:
  "snd (builtinLess e xp yp s) = comparisonLog e xp yp s
   \<and> snd (builtinGreaterEq e xp yp s) = comparisonLog e xp yp s
   \<and> snd (builtinGreater e xp yp s) = comparisonLog e yp xp s
   \<and> snd (builtinLessEq e xp yp s) = comparisonLog e yp xp s"
  by (simp add: builtinGreaterEq_def builtinLessEq_def builtinGreater_def snd_bind_notBoolean
      snd_builtinLess)

theorem comparison_forcing_order_witness:
  "snd (builtinLess exampleEvaluator
       (thunk 1 (valueNumber (Finite 1))) (thunk 2 (valueNumber (Finite 2))) [])
     = [thunk 1 (valueNumber (Finite 1)), thunk 2 (valueNumber (Finite 2))]
   \<and> snd (builtinGreaterEq exampleEvaluator
       (thunk 1 (valueNumber (Finite 1))) (thunk 2 (valueNumber (Finite 2))) [])
     = [thunk 1 (valueNumber (Finite 1)), thunk 2 (valueNumber (Finite 2))]
   \<and> snd (builtinGreater exampleEvaluator
       (thunk 1 (valueNumber (Finite 1))) (thunk 2 (valueNumber (Finite 2))) [])
     = [thunk 2 (valueNumber (Finite 2)), thunk 1 (valueNumber (Finite 1))]
   \<and> snd (builtinLessEq exampleEvaluator
       (thunk 1 (valueNumber (Finite 1))) (thunk 2 (valueNumber (Finite 2))) [])
     = [thunk 2 (valueNumber (Finite 2)), thunk 1 (valueNumber (Finite 1))]"
  using comparison_forcing_order [of exampleEvaluator
      "thunk 1 (valueNumber (Finite 1))" "thunk 2 (valueNumber (Finite 2))" "[]"]
  by (simp add: comparisonLog_def)

text \<open>
  C4 as stated fails for \<^verbatim>\<open>>\<close> and \<^verbatim>\<open><=\<close>: with two failing operands \<^verbatim>\<open>>\<close> reports the
  error of the right operand and never forces the left one, and with two numbers \<^verbatim>\<open>>\<close> and
  \<^verbatim>\<open><=\<close> force the right operand before the left one.
\<close>

theorem builtinGreater_forces_right_operand_first:
  "builtinGreater exampleEvaluator
       (failingThunk 1 (RuntimeError ''left'')) (failingThunk 2 (RuntimeError ''right'')) []
     = (Inl (RuntimeError ''right''), [failingThunk 2 (RuntimeError ''right'')])
   \<and> snd (builtinGreater exampleEvaluator
       (thunk 1 (valueNumber (Finite 1))) (thunk 2 (valueNumber (Finite 2))) [])
     = [thunk 2 (valueNumber (Finite 2)), thunk 1 (valueNumber (Finite 1))]
   \<and> snd (builtinLessEq exampleEvaluator
       (thunk 1 (valueNumber (Finite 1))) (thunk 2 (valueNumber (Finite 2))) [])
     = [thunk 2 (valueNumber (Finite 2)), thunk 1 (valueNumber (Finite 1))]"
  by (simp add: builtinGreater_def builtinLessEq_def builtinLess_def eval_defs makeValueBoolean_def)

section \<open>Primitive equality\<close>

text \<open>
  C9: when both arguments force to values, \<^verbatim>\<open>primitiveEquals\<close> returns false without an
  error for values of different typenames (a function against a non-function included);
  it fails with \<^verbatim>\<open>Cannot test equality of functions\<close> exactly when both values are functions,
  with the non-primitive error exactly when both are arrays or both are objects, and with
  no error otherwise.
\<close>

theorem primitiveEquals_typenames:
  assumes "outcome e xp = Inr x" and "outcome e yp = Inr y"
  shows "(typename x \<noteq> typename y \<longrightarrow>
            fst (primitiveEquals e xp yp s) = Inr (valueBoolean False))
         \<and> (fst (primitiveEquals e xp yp s) = Inl (RuntimeError ''Cannot test equality of functions'')
              \<longleftrightarrow> (\<exists>f g. x = valueFunction f \<and> y = valueFunction g))
         \<and> (fst (primitiveEquals e xp yp s) =
              Inl (RuntimeError (''primitiveEquals operates on primitive types, got '' @ typename x))
              \<longleftrightarrow> typename x = typename y \<and> (typename x = ''array'' \<or> typename x = ''object''))
         \<and> ((\<exists>err. fst (primitiveEquals e xp yp s) = Inl err)
              \<longleftrightarrow> typename x = typename y
                  \<and> (typename x = ''function'' \<or> typename x = ''array'' \<or> typename x = ''object''))"
  using assms
  by (cases x; cases y) (simp_all add: primitiveEquals_def eval_defs makeValueBoolean_def)

theorem primitiveEquals_typenames_witness:
  "fst (primitiveEquals exampleEvaluator (thunk 1 (valueFunction 7)) (thunk 2 (valueNumber (Finite 1))) [])
     = Inr (valueBoolean False)
   \<and> fst (primitiveEquals exampleEvaluator (thunk 1 (valueFunction 7)) (thunk 2 (valueFunction 7)) [])
     = Inl (RuntimeError ''Cannot test equality of functions'')
   \<and> fst (primitiveEquals exampleEvaluator (thunk 1 (valueArray [])) (thunk 2 (valueArray [])) [])
     = Inl (RuntimeError ''primitiveEquals operates on primitive types, got array'')"
  using
    primitiveEquals_typenames [of exampleEvaluator "thunk 1 (valueFunction 7)" "valueFunction 7"
      "thunk 2 (valueNumber (Finite 1))" "valueNumber (Finite 1)" "[]"]
    primitiveEquals_typenames [of exampleEvaluator "thunk 1 (valueFunction 7)" "valueFunction 7"
      "thunk 2 (valueFunction 7)" "valueFunction 7" "[]"]
    primitiveEquals_typenames [of exampleEvaluator "thunk 1 (valueArray [])" "valueArray []"
      "thunk 2 (valueArray [])" "valueArray []" "[]"]
  by simp

section \<open>The operator \<^verbatim>\<open>+\<close>\<close>







section \<open>The arithmetic operators\<close>

lemma builtinMinus_builtinMult_numbers:
  assumes "outcome e xp = Inr (valueNumber a)" and "outcome e yp = Inr (valueNumber b)"
  shows "fst (builtinMinus e xp yp s) = Inr (valueNumber (fsub a b))"
    and "fst (builtinMult e xp yp s) = Inr (valueNumber (fmul a b))"
  using assms
  by (simp_all add: builtinMinus_def builtinMult_def eval_defs makeValueNumber_def)

lemma builtinDiv_builtinModulo_checked:
  assumes "outcome e xp = Inr (valueNumber a)" and "outcome e yp = Inr (valueNumber b)"
  shows "fst (builtinDiv e xp yp s) =
           (if feq b (Finite 0) then Inl (RuntimeError ''Division by zero.'')
            else if isNaN (fdiv a b) then Inl (RuntimeError ''Not a number'')
            else if isInf (fdiv a b) then Inl (RuntimeError ''Overflow'')
            else Inr (valueNumber (fdiv a b)))"
    and "fst (builtinModulo e xp yp s) =
           (if feq b (Finite 0) then Inl (RuntimeError ''Division by zero.'')
            else if isNaN (fmod a b) then Inl (RuntimeError ''Not a number'')
            else if isInf (fmod a b) then Inl (RuntimeError ''Overflow'')
            else Inr (valueNumber (fmod a b)))"
  using assms
  by (simp_all add: builtinDiv_def builtinModulo_def eval_defs makeDoubleCheck_def makeValueNumber_def)

text \<open>
  C2 fails for \<^verbatim>\<open>-\<close> and \<^verbatim>\<open>*\<close>: \<^verbatim>\<open>builtinMinus\<close> and \<^verbatim>\<open>builtinMult\<close> return
  \<^verbatim>\<open>makeValueNumber\<close> of the result without \<^verbatim>\<open>makeDoubleCheck\<close>, so an overflowing product or
  difference is returned as the number infinity and the difference of two infinities as the
  number NaN, where \<^verbatim>\<open>builtinDiv\<close> on an overflowing quotient fails with \<^verbatim>\<open>Overflow\<close>.
\<close>

theorem builtinMinus_builtinMult_unchecked:
  "fst (builtinMult exampleEvaluator
          (readyValue (valueNumber (Finite (10 ^ 308)))) (readyValue (valueNumber (Finite 10))) [])
     = Inr (valueNumber PosInf)
   \<and> fst (builtinMinus exampleEvaluator
          (readyValue (valueNumber (Finite (10 ^ 308))))
          (readyValue (valueNumber (Finite (- (10 ^ 308))))) [])
     = Inr (valueNumber PosInf)
   \<and> fst (builtinMinus exampleEvaluator
          (readyValue (valueNumber PosInf)) (readyValue (valueNumber PosInf)) [])
     = Inr (valueNumber NaN)
   \<and> fst (builtinDiv exampleEvaluator
          (readyValue (valueNumber (Finite (10 ^ 308)))) (readyValue (valueNumber (Finite (1 / 10)))) [])
     = Inl (RuntimeError ''Overflow'')"
  by (simp add: builtinMult_def builtinMinus_def builtinDiv_def eval_defs makeDoubleCheck_def
      makeValueNumber_def round64_def fsub_def)

section \<open>The slot of \<^verbatim>\<open>%\<close> in the operator table\<close>

text \<open>
  C8, as the code has it: the \<^verbatim>\<open>%\<close> slot of \<^verbatim>\<open>bopBuiltins\<close> holds the placeholder \<^verbatim>\<open>todo\<close>,
  whose function returns the runtime error \<^verbatim>\<open>not implemented yet\<close> and leaves the operands
  unforced; it does not panic.  The analyzable-operator map sends \<^verbatim>\<open>%\<close> to \<^verbatim>\<open>mod\<close>.
\<close>

theorem percent_slot_placeholder:
  "bopBuiltins BopPercent = Some todo
   \<and> func todo = todoFunc
   \<and> todoFunc e xp yp s = (Inl (RuntimeError ''not implemented yet''), s)
   \<and> EvalCall todo [xp, yp] e s = (Inl (RuntimeError ''not implemented yet''), s)
   \<and> \<not> panics (EvalCall todo [xp, yp] e s)
   \<and> desugaredBop BopPercent = Some ''mod''"
  by (simp add: EvalCall_def todo_def todoFunc_def throwE_def panics_def)

text \<open>
  C8 as stated says that the placeholder panics: used on \<^verbatim>\<open>5 % 3\<close> it returns an error
  value instead.
\<close>

theorem percent_slot_placeholder_does_not_panic:
  "\<not> panics (EvalCall todo [readyValue (valueNumber (Finite 5)), readyValue (valueNumber (Finite 3))]
       exampleEvaluator [])"
  by (simp add: EvalCall_def todo_def todoFunc_def throwE_def panics_def)

section \<open>\<^verbatim>\<open>makeArray\<close>\<close>

lemma makeArrayLoop_eq:
  "makeArrayLoop f i num elems =
     elems @ map (\<lambda>j. call f (args (readyValue (intToValue j)))) [i..num - 1]"
proof (induction f i num elems rule: makeArrayLoop.induct)
  case (1 f i num elems)
  show ?case
  proof (cases "i < num")
    case True
    then have "[i..num - 1] = i # [i + 1..num - 1]"
      by (simp add: upto_rec1)
    with True "1.IH" show ?thesis
      by (subst makeArrayLoop.simps) simp
  next
    case False
    then show ?thesis
      by (subst makeArrayLoop.simps) simp
  qed
qed

lemma truncReal_less_one: "n < 1 \<Longrightarrow> truncReal n \<le> 0"
  unfolding truncReal_def by (simp add: floor_le_iff ceiling_le_iff)

lemma floatToInt_upto:
  "truncReal n < 2 ^ 63 \<Longrightarrow> [0..floatToInt (Finite n) - 1] = [0..truncReal n - 1]"
  by (simp add: minInt64_def)

lemma truncReal_pow63: "truncReal (2 ^ 63) = 2 ^ 63"
proof -
  have "\<lfloor>(2::real) ^ 63\<rfloor> = 2 ^ 63"
    by (metis floor_of_int of_int_numeral of_int_power)
  then show ?thesis
    by (simp add: truncReal_def)
qed

lemma truncReal_examples: "truncReal (5 / 2) = 2" "truncReal (- (3 / 2)) = - 1"
  unfolding truncReal_def by (simp_all add: floor_eq_iff ceiling_eq_iff)

lemma length_upto_from_0: "length [0..k - 1] = nat (max k 0)"
  by simp

lemma makeArrayLoop_length_below:
  "num < 2 ^ 63 \<Longrightarrow> length (makeArrayLoop f 0 num []) < 2 ^ 63"
  by (simp add: makeArrayLoop_eq)

lemma upto_0_1: "[0..(1::int)] = [0, 1]"
  by (simp add: upto_rec1)

text \<open>
  C10, as the code has it: for a finite size \<open>n\<close> whose truncation toward zero \<open>k\<close> is below
  \<open>2 ^ 63\<close>, \<^verbatim>\<open>makeArray(n, f)\<close> returns the array of the \<open>max k 0\<close> call thunks of \<open>f\<close> on
  \<open>0\<close>, ..., \<open>k - 1\<close>, each of which forces to what the call of \<open>f\<close> yields; for \<open>n\<close> below \<open>1\<close>
  this is the empty array, without an error.  A size or function operand that fails, or
  that has another type, gives that error or a type error.
\<close>

theorem builtinMakeArray_truncates:
  "(outcome e szp = Inr (valueNumber (Finite n)) \<and> outcome e funcp = Inr (valueFunction f)
      \<and> truncReal n < 2 ^ 63 \<longrightarrow>
      fst (builtinMakeArray e szp funcp s) =
        Inr (valueArray (map (\<lambda>i. callThunk f [readyValue (valueNumber (Finite (of_int i)))])
               [0..truncReal n - 1]))
      \<and> length [0..truncReal n - 1] = nat (max (truncReal n) 0)
      \<and> (n < 1 \<longrightarrow> fst (builtinMakeArray e szp funcp s) = Inr (valueArray [])))
   \<and> (\<forall>pv. outcome e (callThunk f [pv]) = evalCall e f [pv])
   \<and> (outcome e szp = Inl err \<longrightarrow> fst (builtinMakeArray e szp funcp s) = Inl err)
   \<and> (outcome e szp = Inr v \<and> typename v \<noteq> ''number'' \<longrightarrow>
        fst (builtinMakeArray e szp funcp s) = Inl (TypeErrorSpecific ''number'' (typename v)))
   \<and> (outcome e szp = Inr (valueNumber x) \<and> outcome e funcp = Inl err \<longrightarrow>
        fst (builtinMakeArray e szp funcp s) = Inl err)
   \<and> (outcome e szp = Inr (valueNumber x) \<and> outcome e funcp = Inr w \<and> typename w \<noteq> ''function'' \<longrightarrow>
        fst (builtinMakeArray e szp funcp s) = Inl (TypeErrorSpecific ''function'' (typename w)))"
proof -
  have neg: "n < 1 \<Longrightarrow> [0..truncReal n - 1] = []"
    using truncReal_less_one [of n] by simp
  have main: "outcome e szp = Inr (valueNumber (Finite n)) \<Longrightarrow> outcome e funcp = Inr (valueFunction f)
      \<Longrightarrow> truncReal n < 2 ^ 63 \<Longrightarrow>
      fst (builtinMakeArray e szp funcp s) =
        Inr (valueArray (map (\<lambda>i. callThunk f [readyValue (valueNumber (Finite (of_int i)))])
               [0..truncReal n - 1]))"
    by (simp add: builtinMakeArray_def eval_defs makeArrayLoop_eq makeValueArray_def
        floatToInt_upto call_def args_def intToValue_def makeValueNumber_def intToFloat_def
        del: floatToInt.simps)
  have e1: "outcome e szp = Inl err \<Longrightarrow> fst (builtinMakeArray e szp funcp s) = Inl err"
    by (simp add: builtinMakeArray_def eval_defs)
  have e2: "outcome e szp = Inr v \<Longrightarrow> typename v \<noteq> ''number'' \<Longrightarrow>
        fst (builtinMakeArray e szp funcp s) = Inl (TypeErrorSpecific ''number'' (typename v))"
    by (cases v) (simp_all add: builtinMakeArray_def eval_defs)
  have e3: "outcome e szp = Inr (valueNumber x) \<Longrightarrow> outcome e funcp = Inl err \<Longrightarrow>
        fst (builtinMakeArray e szp funcp s) = Inl err"
    by (simp add: builtinMakeArray_def eval_defs)
  have e4: "outcome e szp = Inr (valueNumber x) \<Longrightarrow> outcome e funcp = Inr w
      \<Longrightarrow> typename w \<noteq> ''function'' \<Longrightarrow>
        fst (builtinMakeArray e szp funcp s) = Inl (TypeErrorSpecific ''function'' (typename w))"
    by (cases w) (simp_all add: builtinMakeArray_def eval_defs)
  show ?thesis
    using main neg e1 e2 e3 e4 length_upto_from_0 [of "truncReal n"]
    by (simp del: length_upto)
qed

theorem builtinMakeArray_truncates_witness:
  "fst (builtinMakeArray exampleEvaluator (thunk 1 (valueNumber (Finite (5 / 2)))) (thunk 2 (valueFunction 7)) [])
     = Inr (valueArray [callThunk 7 [readyValue (valueNumber (Finite 0))],
                         callThunk 7 [readyValue (valueNumber (Finite 1))]])
   \<and> fst (builtinMakeArray exampleEvaluator (thunk 1 (valueNumber (Finite (- (3 / 2))))) (thunk 2 (valueFunction 7)) [])
     = Inr (valueArray [])
   \<and> fst (builtinMakeArray exampleEvaluator (thunk 1 (valueNumber (Finite (1 / 2)))) (thunk 2 valueNull) [])
     = Inl (TypeErrorSpecific ''function'' ''null'')"
  using
    builtinMakeArray_truncates [where e = exampleEvaluator and s = "[]" and n = "5 / 2" and f = 7
      and szp = "thunk 1 (valueNumber (Finite (5 / 2)))" and funcp = "thunk 2 (valueFunction 7)"]
    builtinMakeArray_truncates [where e = exampleEvaluator and s = "[]" and n = "- (3 / 2)" and f = 7
      and szp = "thunk 1 (valueNumber (Finite (- (3 / 2))))" and funcp = "thunk 2 (valueFunction 7)"]
    builtinMakeArray_truncates [where e = exampleEvaluator and s = "[]" and x = "Finite (1 / 2)"
      and w = valueNull
      and szp = "thunk 1 (valueNumber (Finite (1 / 2)))" and funcp = "thunk 2 valueNull"]
  by (simp add: truncReal_examples upto_0_1 del: length_upto)

text \<open>
  C10 as stated fails for a size of \<open>2 ^ 63\<close> or more: the conversion to \<^verbatim>\<open>int\<close> cannot hold
  the truncation, and the array is empty instead of having \<open>2 ^ 63\<close> elements.  (Whatever
  64-bit integer a conversion delivers, the loop makes fewer than \<open>2 ^ 63\<close> elements:
  \<open>makeArrayLoop_length_below\<close>.)
\<close>

theorem builtinMakeArray_size_beyond_int:
  "fst (builtinMakeArray exampleEvaluator (readyValue (valueNumber (Finite (2 ^ 63))))
         (readyValue (valueFunction 7)) [])
     = Inr (valueArray [])
   \<and> nat (max (truncReal (2 ^ 63)) 0) = 2 ^ 63"
proof -
  have "floatToInt (Finite (2 ^ 63)) = minInt64"
    unfolding floatToInt.simps truncReal_pow63 by simp
  then have a: "floatToInt (Finite 9223372036854775808) = minInt64"
    by simp
  have b: "makeArrayLoop 7 0 minInt64 [] = []"
    by (subst makeArrayLoop.simps) (simp add: minInt64_def)
  have c: "fst (builtinMakeArray exampleEvaluator (readyValue (valueNumber (Finite (2 ^ 63))))
         (readyValue (valueFunction 7)) []) = Inr (valueArray [])"
    by (simp add: builtinMakeArray_def eval_defs makeValueArray_def a b del: floatToInt.simps)
  have d: "nat (max (truncReal (2 ^ 63)) 0) = 2 ^ 63"
    unfolding truncReal_pow63 by simp
  show ?thesis
    using c d by (rule conjI)
qed

section \<open>\<^verbatim>\<open>$objectFlatMerge\<close>\<close>

lemma fieldNames_simple: "fieldNames (up, flds, as) = map fst flds"
  by (simp add: fieldNames_def)

lemma map_fst_wrapFields: "map fst (wrapFields up flds) = map fst flds"
  by (induction flds) (auto simp: wrapFields_def)

lemma map_fst_mergedFields: "map fst (mergedFields objs) = concat (map fieldNames objs)"
  by (induction objs) (auto simp: mergedFields_def fieldNames_simple map_fst_wrapFields)

lemma map_of_None_names: "(map_of acc n = None) = (n \<notin> set (map fst acc))"
  by (simp add: map_of_eq_None_iff)

lemma flatMergeFields_ok:
  "distinct (map fst acc @ map fst flds) \<Longrightarrow>
     flatMergeFields up flds acc = Inr (acc @ wrapFields up flds)"
proof (induction flds arbitrary: acc)
  case Nil
  then show ?case by (simp add: wrapFields_def)
next
  case (Cons p flds)
  obtain n fv where p: "p = (n, fv)" by (cases p)
  from Cons.prems p have fresh: "n \<notin> set (map fst acc)"
    by auto
  from Cons.prems p have "distinct (map fst (acc @ [(n, valueSimpleObjectField (hide fv)
      (bindingsUnboundField (field fv) up))]) @ map fst flds)"
    by auto
  from Cons.IH [OF this] fresh p show ?case
    by (simp add: map_of_None_names wrapFields_def del: map_of_eq_None_iff)
qed

lemma flatMergeFields_dup:
  "distinct (map fst flds) \<Longrightarrow> \<not> distinct (map fst acc @ map fst flds) \<Longrightarrow> distinct (map fst acc)
    \<Longrightarrow> \<exists>n. flatMergeFields up flds acc = Inl (RuntimeError (duplicateFieldNameErrMsg n))
          \<and> n \<in> set (map fst acc) \<and> n \<in> set (map fst flds)"
proof (induction flds arbitrary: acc)
  case Nil
  then show ?case by simp
next
  case (Cons p flds)
  obtain n fv where p: "p = (n, fv)" by (cases p)
  show ?case
  proof (cases "n \<in> set (map fst acc)")
    case True
    with p show ?thesis
      by (auto simp: map_of_None_names simp del: map_of_eq_None_iff)
  next
    case False
    let ?acc = "acc @ [(n, valueSimpleObjectField (hide fv) (bindingsUnboundField (field fv) up))]"
    from Cons.prems p False have a: "distinct (map fst flds)" and b: "distinct (map fst ?acc)"
      and c: "\<not> distinct (map fst ?acc @ map fst flds)"
      by auto
    from Cons.IH [OF a c b] obtain m where
      m: "flatMergeFields up flds ?acc = Inl (RuntimeError (duplicateFieldNameErrMsg m))"
        "m \<in> set (map fst ?acc)" "m \<in> set (map fst flds)"
      by blast
    from Cons.prems(1) p m(3) have "m \<noteq> n" by auto
    with m False p show ?thesis
      by (auto simp: map_of_None_names simp del: map_of_eq_None_iff)
  qed
qed

lemma evaluateObject_simple:
  "outcome e el = Inr (objectValue obj) \<Longrightarrow> evaluateObject e el s = (Inr obj, forced el s)"
  by (simp add: eval_defs)

lemma flatMergeElements_ok:
  "map (outcome e) elems = map (\<lambda>obj. Inr (simpleObjectValue obj)) objs
    \<Longrightarrow> distinct (map fst acc @ concat (map fieldNames objs))
    \<Longrightarrow> fst (flatMergeElements e elems acc s) = Inr (acc @ mergedFields objs)"
proof (induction objs arbitrary: elems acc s)
  case Nil
  then show ?case by (simp add: mergedFields_def returnE_def)
next
  case (Cons obj objs)
  obtain up flds as where obj: "obj = (up, flds, as)" by (cases obj)
  from Cons.prems(1) obtain el rest where elems: "elems = el # rest"
    and el: "outcome e el = Inr (objectValue (valueSimpleObject up flds as))"
    and rest: "map (outcome e) rest = map (\<lambda>obj. Inr (simpleObjectValue obj)) objs"
    by (cases elems) (auto simp: obj simpleObjectValue_def)
  from Cons.prems(2) obj have d1: "distinct (map fst acc @ map fst flds)"
    and d2: "distinct (map fst (acc @ wrapFields up flds) @ concat (map fieldNames objs))"
    by (auto simp: fieldNames_simple map_fst_wrapFields)
  show ?case
    using Cons.IH [OF rest d2] flatMergeFields_ok [OF d1, of up]
    by (simp add: elems evaluateObject_simple [OF el] bindE_def obj mergedFields_def)
qed

lemma count_list_ge2:
  "n \<in> set xs \<Longrightarrow> n \<in> set ys \<Longrightarrow> 2 \<le> count_list (xs @ ys @ zs) n"
proof -
  assume "n \<in> set xs" "n \<in> set ys"
  then have "0 < count_list xs n" "0 < count_list ys n"
    by (simp_all add: count_list_0_iff zero_less_iff_neq_zero)
  then show ?thesis by simp
qed

lemma flatMergeElements_dup:
  "map (outcome e) elems = map (\<lambda>obj. Inr (simpleObjectValue obj)) objs
    \<Longrightarrow> \<forall>obj \<in> set objs. distinct (fieldNames obj)
    \<Longrightarrow> distinct (map fst acc)
    \<Longrightarrow> \<not> distinct (map fst acc @ concat (map fieldNames objs))
    \<Longrightarrow> \<exists>n. fst (flatMergeElements e elems acc s) = Inl (RuntimeError (duplicateFieldNameErrMsg n))
          \<and> 2 \<le> count_list (map fst acc @ concat (map fieldNames objs)) n"
proof (induction objs arbitrary: elems acc s)
  case Nil
  then show ?case by simp
next
  case (Cons obj objs)
  obtain up flds as where obj: "obj = (up, flds, as)" by (cases obj)
  from Cons.prems(1) obtain el rest where elems: "elems = el # rest"
    and el: "outcome e el = Inr (objectValue (valueSimpleObject up flds as))"
    and rest: "map (outcome e) rest = map (\<lambda>obj. Inr (simpleObjectValue obj)) objs"
    by (cases elems) (auto simp: obj simpleObjectValue_def)
  from Cons.prems(2) obj have df: "distinct (map fst flds)"
    and dr: "\<forall>obj \<in> set objs. distinct (fieldNames obj)"
    by (auto simp: fieldNames_simple)
  show ?case
  proof (cases "distinct (map fst acc @ map fst flds)")
    case False
    from flatMergeFields_dup [OF df False Cons.prems(3), of up] obtain n where
      n: "flatMergeFields up flds acc = Inl (RuntimeError (duplicateFieldNameErrMsg n))"
        "n \<in> set (map fst acc)" "n \<in> set (map fst flds)"
      by blast
    from count_list_ge2 [OF n(2) n(3)]
    have "2 \<le> count_list (map fst acc @ concat (map fieldNames (obj # objs))) n"
      by (simp add: obj fieldNames_simple)
    with n(1) show ?thesis
      by (auto simp: elems evaluateObject_simple [OF el] bindE_def throwE_def)
  next
    case True
    let ?acc = "acc @ wrapFields up flds"
    from True have d1: "distinct (map fst ?acc)"
      by (simp add: map_fst_wrapFields)
    from Cons.prems(4) have d2: "\<not> distinct (map fst ?acc @ concat (map fieldNames objs))"
      by (simp add: obj fieldNames_simple map_fst_wrapFields)
    from Cons.IH [OF rest dr d1 d2, of "forced el s"] obtain n where
      n: "fst (flatMergeElements e rest ?acc (forced el s)) =
            Inl (RuntimeError (duplicateFieldNameErrMsg n))"
         "2 \<le> count_list (map fst ?acc @ concat (map fieldNames objs)) n"
      by blast
    from n(2) have "2 \<le> count_list (map fst acc @ concat (map fieldNames (obj # objs))) n"
      by (simp add: obj fieldNames_simple map_fst_wrapFields)
    with n(1) flatMergeFields_ok [OF True, of up] show ?thesis
      by (auto simp: elems evaluateObject_simple [OF el] bindE_def)
  qed
qed

lemma map_of_mergedFields:
  assumes "distinct (concat (map fieldNames objs))"
    and "(up, flds, as) \<in> set objs" and "(n, fv) \<in> set flds"
  shows "map_of (mergedFields objs) n =
           Some (valueSimpleObjectField (hide fv) (bindingsUnboundField (field fv) up))"
proof -
  have "distinct (map fst (mergedFields objs))"
    using assms(1) by (simp add: map_fst_mergedFields)
  moreover have "(n, valueSimpleObjectField (hide fv) (bindingsUnboundField (field fv) up))
      \<in> set (mergedFields objs)"
    using assms(2,3) by (force simp: mergedFields_def wrapFields_def)
  ultimately show ?thesis
    by (rule map_of_is_SomeI)
qed

text \<open>
  C6: for an array whose elements force to simple objects (each with a field table, whose
  names are distinct as the keys of a Go map are), \<^verbatim>\<open>$objectFlatMerge\<close> returns, when no field
  name occurs in two of the objects, the simple object without binding frame and without
  assertions whose field table is the union of the tables: it has the names of all the
  objects, and each field keeps its hide flag and has its unbound field wrapped in a
  \<^verbatim>\<open>bindingsUnboundField\<close> with the \<^verbatim>\<open>upValues\<close> of its object.  When a name occurs in two of the
  objects, the result is the duplicate-field-name error for a name that occurs at least
  twice.  The empty array gives the object without fields.
\<close>

theorem objectFlatMerge_union:
  assumes "outcome e objarrp = Inr (valueArray elems)"
    and "map (outcome e) elems = map (\<lambda>obj. Inr (simpleObjectValue obj)) objs"
    and "\<forall>obj \<in> set objs. distinct (fieldNames obj)"
  shows "(distinct (concat (map fieldNames objs)) \<longrightarrow>
            fst (builtinUglyObjectFlatMerge e objarrp s) =
              Inr (objectValue (valueSimpleObject [] (mergedFields objs) []))
            \<and> map fst (mergedFields objs) = concat (map fieldNames objs)
            \<and> (\<forall>up flds as n fv. (up, flds, as) \<in> set objs \<and> (n, fv) \<in> set flds \<longrightarrow>
                 map_of (mergedFields objs) n =
                   Some (valueSimpleObjectField (hide fv) (bindingsUnboundField (field fv) up))))
         \<and> (\<not> distinct (concat (map fieldNames objs)) \<longrightarrow>
              (\<exists>n. fst (builtinUglyObjectFlatMerge e objarrp s) =
                      Inl (RuntimeError (''duplicate field name: '' @ n))
                    \<and> 2 \<le> count_list (concat (map fieldNames objs)) n))
         \<and> (objs = [] \<longrightarrow>
              fst (builtinUglyObjectFlatMerge e objarrp s) = Inr (objectValue (valueSimpleObject [] [] [])))"
proof -
  have len: "length elems = length objs"
    using assms(2) by (metis length_map)
  have arr: "evaluateArray e objarrp s = (Inr elems, forced objarrp s)"
    using assms(1) by (simp add: eval_defs)
  have empty: "objs = [] \<Longrightarrow>
      fst (builtinUglyObjectFlatMerge e objarrp s) = Inr (objectValue (valueSimpleObject [] [] []))"
    using len by (simp add: builtinUglyObjectFlatMerge_def arr bindE_def returnE_def)
  have ok: "distinct (concat (map fieldNames objs)) \<Longrightarrow>
      fst (builtinUglyObjectFlatMerge e objarrp s) =
        Inr (objectValue (valueSimpleObject [] (mergedFields objs) []))"
  proof (cases "objs = []")
    case True
    then show ?thesis using empty by (simp add: mergedFields_def)
  next
    case False
    assume d: "distinct (concat (map fieldNames objs))"
    then have "fst (flatMergeElements e elems [] (forced objarrp s)) = Inr ([] @ mergedFields objs)"
      by (intro flatMergeElements_ok [OF assms(2)]) simp
    moreover from False len have "elems \<noteq> []"
      by auto
    ultimately show ?thesis
      by (cases "flatMergeElements e elems [] (forced objarrp s)")
        (simp add: builtinUglyObjectFlatMerge_def arr bindE_def returnE_def
          makeValueSimpleObject_def)
  qed
  have dup: "\<not> distinct (concat (map fieldNames objs)) \<Longrightarrow>
      \<exists>n. fst (builtinUglyObjectFlatMerge e objarrp s) =
             Inl (RuntimeError (''duplicate field name: '' @ n))
          \<and> 2 \<le> count_list (concat (map fieldNames objs)) n"
  proof -
    assume nd: "\<not> distinct (concat (map fieldNames objs))"
    then have ne: "objs \<noteq> []" by auto
    from nd have "\<not> distinct (map fst ([]::valueSimpleObjectFieldMap) @ concat (map fieldNames objs))"
      by simp
    from flatMergeElements_dup [OF assms(2) assms(3) _ this, of "forced objarrp s"] obtain n where
      n: "fst (flatMergeElements e elems [] (forced objarrp s)) =
            Inl (RuntimeError (duplicateFieldNameErrMsg n))"
         "2 \<le> count_list (concat (map fieldNames objs)) n"
      by auto
    from ne len have "elems \<noteq> []"
      by auto
    with n(1) have "fst (builtinUglyObjectFlatMerge e objarrp s) =
        Inl (RuntimeError (''duplicate field name: '' @ n))"
      by (cases "flatMergeElements e elems [] (forced objarrp s)")
        (simp add: builtinUglyObjectFlatMerge_def arr bindE_def duplicateFieldNameErrMsg_def)
    with n(2) show ?thesis by blast
  qed
  show ?thesis
    using ok dup empty map_fst_mergedFields [of objs] map_of_mergedFields [of objs]
    by blast
qed


theorem objectFlatMerge_union_witness:
  "fst (builtinUglyObjectFlatMerge exampleEvaluator
         (thunk 0 (valueArray
            [thunk 1 (objectValue (valueSimpleObject [(''x'', readyValue valueNull)]
                [(''a'', valueSimpleObjectField ObjectFieldInherit (codeUnboundField 1))] [])),
             thunk 2 (objectValue (valueSimpleObject []
                [(''b'', valueSimpleObjectField ObjectFieldHidden (codeUnboundField 2))]
                [codeUnboundField 3]))])) [])
     = Inr (objectValue (valueSimpleObject []
         [(''a'', valueSimpleObjectField ObjectFieldInherit
                    (bindingsUnboundField (codeUnboundField 1) [(''x'', readyValue valueNull)])),
          (''b'', valueSimpleObjectField ObjectFieldHidden
                    (bindingsUnboundField (codeUnboundField 2) []))]
         []))
   \<and> fst (builtinUglyObjectFlatMerge exampleEvaluator
         (thunk 0 (valueArray
            [thunk 1 (objectValue (valueSimpleObject []
                [(''a'', valueSimpleObjectField ObjectFieldInherit (codeUnboundField 1))] [])),
             thunk 2 (objectValue (valueSimpleObject []
                [(''a'', valueSimpleObjectField ObjectFieldHidden (codeUnboundField 2))] []))])) [])
     = Inl (RuntimeError ''duplicate field name: a'')
   \<and> fst (builtinUglyObjectFlatMerge exampleEvaluator (thunk 0 (valueArray [])) [])
     = Inr (objectValue (valueSimpleObject [] [] []))"
proof -
  let ?o1 = "([(''x'', readyValue valueNull)],
              [(''a'', valueSimpleObjectField ObjectFieldInherit (codeUnboundField 1))], [])"
  let ?o2 = "([], [(''b'', valueSimpleObjectField ObjectFieldHidden (codeUnboundField 2))],
              [codeUnboundField 3])"
  let ?p1 = "([], [(''a'', valueSimpleObjectField ObjectFieldInherit (codeUnboundField 1))], [])"
  let ?p2 = "([], [(''a'', valueSimpleObjectField ObjectFieldHidden (codeUnboundField 2))], [])"
  let ?dup = "fst (builtinUglyObjectFlatMerge exampleEvaluator
         (thunk 0 (valueArray
            [thunk 1 (objectValue (valueSimpleObject []
                [(''a'', valueSimpleObjectField ObjectFieldInherit (codeUnboundField 1))] [])),
             thunk 2 (objectValue (valueSimpleObject []
                [(''a'', valueSimpleObjectField ObjectFieldHidden (codeUnboundField 2))] []))])) [])"
  have w1: "fst (builtinUglyObjectFlatMerge exampleEvaluator
         (thunk 0 (valueArray
            [thunk 1 (objectValue (valueSimpleObject [(''x'', readyValue valueNull)]
                [(''a'', valueSimpleObjectField ObjectFieldInherit (codeUnboundField 1))] [])),
             thunk 2 (objectValue (valueSimpleObject []
                [(''b'', valueSimpleObjectField ObjectFieldHidden (codeUnboundField 2))]
                [codeUnboundField 3]))])) [])
     = Inr (objectValue (valueSimpleObject []
         [(''a'', valueSimpleObjectField ObjectFieldInherit
                    (bindingsUnboundField (codeUnboundField 1) [(''x'', readyValue valueNull)])),
          (''b'', valueSimpleObjectField ObjectFieldHidden
                    (bindingsUnboundField (codeUnboundField 2) []))]
         []))"
    using
      objectFlatMerge_union [where e = exampleEvaluator and s = "[]" and objs = "[?o1, ?o2]"
        and elems = "[thunk 1 (simpleObjectValue ?o1), thunk 2 (simpleObjectValue ?o2)]"
        and objarrp = "thunk 0 (valueArray
          [thunk 1 (simpleObjectValue ?o1), thunk 2 (simpleObjectValue ?o2)])"]
    by (simp add: simpleObjectValue_def fieldNames_def mergedFields_def wrapFields_def)
  have "\<exists>n. ?dup = Inl (RuntimeError (''duplicate field name: '' @ n))
          \<and> 2 \<le> count_list [''a''] n + count_list [''a''] n"
    using
      objectFlatMerge_union [where e = exampleEvaluator and s = "[]" and objs = "[?p1, ?p2]"
        and elems = "[thunk 1 (simpleObjectValue ?p1), thunk 2 (simpleObjectValue ?p2)]"
        and objarrp = "thunk 0 (valueArray
          [thunk 1 (simpleObjectValue ?p1), thunk 2 (simpleObjectValue ?p2)])"]
    by (simp add: simpleObjectValue_def fieldNames_def del: count_list.simps append.simps)
  then obtain n where n: "?dup = Inl (RuntimeError (''duplicate field name: '' @ n))"
    and c: "2 \<le> count_list [''a''] n + count_list [''a''] n"
    by blast
  have "n = ''a''"
  proof (rule ccontr)
    assume "n \<noteq> ''a''"
    then have "count_list [''a''] n = 0"
      by auto
    with c show False by simp
  qed
  with n have w2: "?dup = Inl (RuntimeError ''duplicate field name: a'')"
    by simp
  have w3: "fst (builtinUglyObjectFlatMerge exampleEvaluator (thunk 0 (valueArray [])) [])
     = Inr (objectValue (valueSimpleObject [] [] []))"
    using
      objectFlatMerge_union [where e = exampleEvaluator and s = "[]" and objs = "[]"
        and elems = "[]" and objarrp = "thunk 0 (valueArray [])"]
    by simp
  show ?thesis
    using w1 w2 w3 by (intro conjI)
qed

section \<open>Static analysis: the errors\<close>

lemma threads_refl: "threads s s True False"
  by (auto simp: threads_def)

lemma threads_trans:
  "threads r1 s D1 V1 \<Longrightarrow> threads r2 r1 D2 V2 \<Longrightarrow> threads r2 s (D1 \<and> D2) (V1 \<or> V2)"
  unfolding threads_def by blast

lemma threads_iff:
  "threads r s D V \<Longrightarrow> (D \<longleftrightarrow> D') \<Longrightarrow> (V \<longleftrightarrow> V') \<Longrightarrow> threads r s D' V'"
  by simp

lemma threads_new: "threads r (stateErr newAnalysisState) D V \<Longrightarrow> threads r None D V"
  by (simp add: newAnalysisState_def)

lemma threads_visitNext:
  assumes "stateErr st = None \<Longrightarrow> threads (fst (analyzeVisit a io vars)) None D V"
  shows "threads (stateErr (visitNext a io vars st)) (stateErr st) D V"
proof (cases "stateErr st = None")
  case True
  with assms show ?thesis
    by (simp add: visitNext.simps)
next
  case False
  then show ?thesis
    by (auto simp: visitNext.simps threads_def)
qed

lemma field_violation_iff:
  "((\<exists>h n b p. F h n b p \<and> (A n \<or> B b)) \<or> C) =
   ((\<exists>h n. (\<exists>b p. F h n b p) \<and> A n) \<or> (\<exists>h n b. (\<exists>p. F h n b p) \<and> B b) \<or> C)"
  by (rule iffI; blast)

lemma analyzeVisit_threads:
  shows "threads (fst (analyzeVisit a io vars)) None (analyzable a) (violation io vars a)"
    and "threads (stateErr (visitNext a1 io1 vars1 st1)) (stateErr st1) (analyzable a1) (violation io1 vars1 a1)"
    and "threads (stateErr (visitNodes as2 io2 vars2 st2)) (stateErr st2)
           (list_all analyzable as2) (\<exists>x \<in> set as2. violation io2 vars2 x)"
    and "threads (stateErr (visitNamed as3 io3 vars3 st3)) (stateErr st3)
           (list_all analyzableArg as3) (\<exists>n x. NamedArgument n x \<in> set as3 \<and> violation io3 vars3 x)"
    and "threads (stateErr (visitDefaultArgs as4 io4 vars4 st4)) (stateErr st4)
           (list_all analyzableParam as4) (\<exists>n x. NamedParameter n x \<in> set as4 \<and> violation io4 vars4 x)"
    and "threads (stateErr (visitBinds as5 io5 vars5 st5)) (stateErr st5)
           (list_all analyzableBind as5) (\<exists>v x. LocalBind v x \<in> set as5 \<and> violation io5 vars5 x)"
    and "threads (stateErr (visitFields as6 io6 vars6 st6)) (stateErr st6)
           (list_all analyzableField as6)
           (\<exists>h n b p. DesugaredObjectField h n b p \<in> set as6
              \<and> (violation io6 vars6 n \<or> violation True vars6 b))"
proof (induction a io vars and a1 io1 vars1 st1 and as2 io2 vars2 st2 and as3 io3 vars3 st3
    and as4 io4 vars4 st4 and as5 io5 vars5 st5 and as6 io6 vars6 st6
    rule: analyzeVisit_visitNext_visitNodes_visitNamed_visitDefaultArgs_visitBinds_visitFields.induct)
  case (1 a inObject vars state)
  then show ?case
    by (intro threads_visitNext) simp
next
  case (2 inObject vars s)
  show ?case by (simp add: threads_refl)
next
  case (3 a as inObject vars s)
  show ?case
    unfolding visitNodes.simps
    by (rule threads_iff [OF threads_trans [OF 3(1) 3(2)]]) auto
next
  case (4 inObject vars s)
  show ?case by (simp add: threads_refl)
next
  case (5 n a as inObject vars s)
  show ?case
    unfolding visitNamed.simps
    by (rule threads_iff [OF threads_trans [OF 5(1) 5(2)]]) auto
next
  case (6 inObject vars s)
  show ?case by (simp add: threads_refl)
next
  case (7 n d ps inObject vars s)
  show ?case
    unfolding visitDefaultArgs.simps
    by (rule threads_iff [OF threads_trans [OF 7(1) 7(2)]]) auto
next
  case (8 inObject vars s)
  show ?case by (simp add: threads_refl)
next
  case (9 v b bs inObject vars s)
  show ?case
    unfolding visitBinds.simps
    by (rule threads_iff [OF threads_trans [OF 9(1) 9(2)]]) auto
next
  case (10 inObject vars s)
  show ?case by (simp add: threads_refl)
next
  case (11 h n b p fs inObject vars s)
  show ?case
    unfolding visitFields.simps
    by (rule threads_iff [OF threads_trans [OF threads_trans [OF 11(1) 11(2)] 11(3)]]) auto
next
  case (12 target positional named inObject vars)
  show ?case
    unfolding analyzeVisit.simps Let_def fst_conv
    by (rule threads_iff [OF threads_new [OF threads_trans [OF threads_trans [OF 12(1) 12(2)] 12(3)]]])
      (auto simp: violation_Apply)
next
  case (13 elements inObject vars)
  show ?case
    unfolding analyzeVisit.simps Let_def fst_conv
    by (rule threads_iff [OF threads_new [OF 13(1)]]) (auto simp: violation_Array)
next
  case (14 l op r inObject vars)
  show ?case
    unfolding analyzeVisit.simps Let_def fst_conv
    by (rule threads_iff [OF threads_new [OF threads_trans [OF 14(1) 14(2)]]])
      (auto simp: violation_Binary)
next
  case (15 c t f inObject vars)
  show ?case
    unfolding analyzeVisit.simps Let_def fst_conv
    by (rule threads_iff [OF threads_new [OF threads_trans [OF threads_trans [OF 15(1) 15(2)] 15(3)]]])
      (auto simp: violation_Conditional)
next
  case (16 ex inObject vars)
  show ?case
    unfolding analyzeVisit.simps Let_def fst_conv
    by (rule threads_iff [OF threads_new [OF 16(1)]]) (auto simp: violation_Error)
next
  case (17 required optional body inObject vars)
  show ?case
    unfolding analyzeVisit.simps Let_def fst_conv
    by (rule threads_iff [OF threads_new [OF threads_trans [OF 17(1) [OF refl] 17(2) [OF refl]]]])
      (auto simp: violation_Function)
next
  case (18 f inObject vars)
  show ?case by (simp add: threads_def violation_Import)
next
  case (19 f inObject vars)
  show ?case by (simp add: threads_def violation_ImportStr)
next
  case (20 index inObject vars)
  show ?case
  proof (cases inObject)
    case True
    with 20 have "threads (stateErr (visitNext index inObject vars newAnalysisState)) None
        (analyzable index) (violation inObject vars index)"
      by (intro threads_new) simp
    with True show ?thesis
      by (simp add: Let_def violation_InSuper)
  next
    case False
    then show ?thesis
      by (simp add: threads_def violation_InSuper)
  qed
next
  case (21 index inObject vars)
  show ?case
  proof (cases inObject)
    case True
    with 21 have "threads (stateErr (visitNext index inObject vars newAnalysisState)) None
        (analyzable index) (violation inObject vars index)"
      by (intro threads_new) simp
    with True show ?thesis
      by (simp add: Let_def violation_SuperIndex)
  next
    case False
    then show ?thesis
      by (simp add: threads_def violation_SuperIndex)
  qed
next
  case (22 target index inObject vars)
  show ?case
    unfolding analyzeVisit.simps Let_def fst_conv
    by (rule threads_iff [OF threads_new [OF threads_trans [OF 22(1) 22(2)]]])
      (auto simp: violation_Index)
next
  case (23 binds body inObject vars)
  show ?case
    unfolding analyzeVisit.simps Let_def fst_conv
    by (rule threads_iff [OF threads_new [OF threads_trans [OF 23(1) [OF refl] 23(2) [OF refl]]]])
      (auto simp: violation_Local)
next
  case (24 b inObject vars)
  show ?case by (simp add: threads_def violation_LiteralBoolean)
next
  case (25 inObject vars)
  show ?case by (simp add: threads_def violation_LiteralNull)
next
  case (26 v orig inObject vars)
  show ?case by (simp add: threads_def violation_LiteralNumber)
next
  case (27 v inObject vars)
  show ?case by (simp add: threads_def violation_LiteralString)
next
  case (28 asserts fields inObject vars)
  show ?case
    unfolding analyzeVisit.simps Let_def fst_conv
    apply (rule threads_iff [OF threads_new [OF threads_trans [OF 28(1) 28(2)]]])
     apply (simp add: conj_commute)
    apply (simp only: violation_DesugaredObject Bex_def)
    apply (rule field_violation_iff)
    done
next
  case (29 inObject vars)
  show ?case by (simp add: threads_def violation_Self)
next
  case (30 op ex inObject vars)
  show ?case
    unfolding analyzeVisit.simps Let_def fst_conv
    by (rule threads_iff [OF threads_new [OF 30(1)]]) (auto simp: violation_Unary)
next
  case (31 ident inObject vars)
  show ?case by (simp add: threads_def violation_Var)
next
  case (32 k inObject vars)
  show ?case by (simp add: threads_def violation_UnlistedNode)
qed

text \<open>
  C7, as the code has it: analysis with the initial scope \<open>std\<close> succeeds exactly on the
  desugared trees without a violation; on a desugared tree it fails with a static error
  exactly when the tree has a violation (a \<open>Var\<close> that is not bound in its scope, or a
  \<open>Self\<close>, \<open>SuperIndex\<close> or \<open>InSuper\<close> outside any object); a static error always comes from a
  violation; and the panic on an unexpected node only happens on a tree that has a node of
  a kind that \<^verbatim>\<open>analyzeVisit\<close> does not list.
\<close>

theorem analyze_static_errors:
  "(analyze t = None \<longleftrightarrow> analyzable t \<and> \<not> violation False {''std''} t)
   \<and> (analyzable t \<longrightarrow>
        ((\<exists>msg. analyze t = Some (StaticError msg)) \<longleftrightarrow> violation False {''std''} t))
   \<and> (\<forall>msg. analyze t = Some (StaticError msg) \<longrightarrow> violation False {''std''} t)
   \<and> (analyze t = Some UnexpectedNode \<longrightarrow> \<not> analyzable t)"
proof -
  have "threads (analyze t) None (analyzable t) (violation False {''std''} t)"
    unfolding analyze_def by (rule analyzeVisit_threads(1))
  then show ?thesis
    unfolding threads_def
    by (cases "analyze t"; cases "the (analyze t)") auto
qed


theorem analyze_static_errors_witness:
  "analyze (Local [LocalBind ''x'' LiteralNull] (Index (Var ''std'') (Var ''x''))) = None
   \<and> \<not> violation False {''std''} (Local [LocalBind ''x'' LiteralNull] (Index (Var ''std'') (Var ''x'')))
   \<and> analyze (Binary (Var ''std'') BopPlus (Var ''y'')) = Some (StaticError ''Unknown variable: y'')
   \<and> violation False {''std''} (Binary (Var ''std'') BopPlus (Var ''y''))
   \<and> analyze (DesugaredObject []
        [DesugaredObjectField ObjectFieldInherit (LiteralString ''f'') Self False]) = None
   \<and> analyze (DesugaredObject []
        [DesugaredObjectField ObjectFieldInherit Self (LiteralString ''f'') False])
      = Some (StaticError ''Can't use self outside of an object.'')"
proof -
  have a: "analyze (Local [LocalBind ''x'' LiteralNull] (Index (Var ''std'') (Var ''x''))) = None"
    by (simp add: analyze_def Let_def visitNext.simps newAnalysisState_def)
  have b: "analyze (Binary (Var ''std'') BopPlus (Var ''y'')) = Some (StaticError ''Unknown variable: y'')"
    by (simp add: analyze_def Let_def visitNext.simps newAnalysisState_def)
  have c: "analyze (DesugaredObject []
        [DesugaredObjectField ObjectFieldInherit (LiteralString ''f'') Self False]) = None"
    by (simp add: analyze_def Let_def visitNext.simps newAnalysisState_def)
  have d: "analyze (DesugaredObject []
        [DesugaredObjectField ObjectFieldInherit Self (LiteralString ''f'') False])
      = Some (StaticError ''Can't use self outside of an object.'')"
    by (simp add: analyze_def Let_def visitNext.simps newAnalysisState_def)
  show ?thesis
    using
      analyze_static_errors [of "Local [LocalBind ''x'' LiteralNull] (Index (Var ''std'') (Var ''x''))"]
      analyze_static_errors [of "Binary (Var ''std'') BopPlus (Var ''y'')"]
    by (simp add: a b c d)
qed

text \<open>
  C7 as stated fails on a tree with a node kind that \<^verbatim>\<open>analyzeVisit\<close> does not list, such as
  the \<open>Slice\<close> that the spec counts among the desugared nodes: the tree has no unbound variable
  and no \<open>self\<close> or \<open>super\<close>, and the analysis neither succeeds nor reports a static error but
  panics.
\<close>

theorem analyze_slice_unexpected_node:
  "analyze (UnlistedNode AST_SLICE) = Some UnexpectedNode
   \<and> \<not> violation False {''std''} (UnlistedNode AST_SLICE)
   \<and> analyze (Index (UnlistedNode AST_SLICE) (LiteralNumber (Finite 0) ''0'')) = Some UnexpectedNode
   \<and> \<not> violation False {''std''} (Index (UnlistedNode AST_SLICE) (LiteralNumber (Finite 0) ''0''))"
  by (simp add: analyze_def Let_def visitNext.simps newAnalysisState_def violation_UnlistedNode
      violation_Index violation_LiteralNumber)

end
